theory Spec2Isabelle
  imports Main "HOL-Library.Word"
begin

unbundle bit_operations_syntax

section \<open>The mapped buffer\<close>

text \<open>
  vdexExtractor works on one memory-mapped file, handed around as \<open>const u1 *cursor\<close>.
  The mapping is a list of bytes. A pointer into it is the byte distance from
  \<open>cursor\<close>, a natural number: pointer arithmetic on a 64-bit host does not wrap at
  32 bits, whereas every value of type \<open>u4\<close> does. C has no bounds checks; an access
  that leaves the mapping is a memory fault, written \<open>None\<close> here, so that every
  function reading the buffer returns an option. Multi-byte fields are little-endian
  (the structs are packed overlays of the file on a little-endian host).
\<close>

type_synonym u1 = "8 word"
type_synonym u4 = "32 word"

definition read_bytes :: "u1 list \<Rightarrow> nat \<Rightarrow> nat \<Rightarrow> u1 list option" where
  "read_bytes buf off n =
     (if off + n \<le> length buf then Some (take n (drop off buf)) else None)"

definition u4_of_bytes :: "u1 list \<Rightarrow> u4" where
  "u4_of_bytes bs = foldr (\<lambda>b acc. ucast b OR push_bit 8 acc) bs 0"

definition bytes_of_u4 :: "u4 \<Rightarrow> u1 list" where
  "bytes_of_u4 v = [ucast v, ucast (drop_bit 8 v), ucast (drop_bit 16 v), ucast (drop_bit 24 v)]"

definition read_u4 :: "u1 list \<Rightarrow> nat \<Rightarrow> u4 option" where
  "read_u4 buf off = map_option u4_of_bytes (read_bytes buf off 4)"

definition write_u4 :: "u1 list \<Rightarrow> nat \<Rightarrow> u4 \<Rightarrow> u1 list option" where
  "write_u4 buf off v =
     (if off + 4 \<le> length buf
      then Some (take off buf @ bytes_of_u4 v @ drop (off + 4) buf) else None)"

text \<open>
  \<open>memcmp\<close> of the C library on two byte ranges of the same length: zero when they
  agree, otherwise the difference of the first two bytes that differ.
\<close>

fun memcmp :: "u1 list \<Rightarrow> u1 list \<Rightarrow> int" where
  "memcmp (a # as) (b # bs) =
     (if a = b then memcmp as bs else int (unat a) - int (unat b))"
| "memcmp _ _ = 0"

section \<open>vdex.h: constants and the header\<close>

text \<open>
  \<open>kVdexMagic = { 'v', 'd', 'e', 'x' }\<close>, and the two rows of \<open>kVdexMagicVersions\<close>:
  \<open>{ '0', '0', '6', '\0' }\<close> and \<open>{ '0', '1', '0', '\0' }\<close>.
\<close>

definition kVdexMagic :: "u1 list" where
  "kVdexMagic = [0x76, 0x64, 0x65, 0x78]"

definition kVdexMagicVersions :: "u1 list list" where
  "kVdexMagicVersions = [[0x30, 0x30, 0x36, 0x00], [0x30, 0x31, 0x30, 0x00]]"

definition kVdexVersionLen :: nat where
  "kVdexVersionLen = 4"

text \<open>
  The packed \<open>vdexHeader\<close>: \<open>magic\<close> at 0, \<open>version\<close> at 4, \<open>numberOfDexFiles\<close> at 8,
  \<open>dexSize\<close> at 12, \<open>verifierDepsSize\<close> at 16, \<open>quickeningInfoSize\<close> at 20.
\<close>

definition sizeof_vdexHeader :: nat where
  "sizeof_vdexHeader = 24"

definition hdr_magic :: "u1 list \<Rightarrow> u1 list option" where
  "hdr_magic cursor = read_bytes cursor 0 4"

definition hdr_version :: "u1 list \<Rightarrow> u1 list option" where
  "hdr_version cursor = read_bytes cursor 4 4"

definition hdr_numberOfDexFiles :: "u1 list \<Rightarrow> u4 option" where
  "hdr_numberOfDexFiles cursor = read_u4 cursor 8"

definition hdr_dexSize :: "u1 list \<Rightarrow> u4 option" where
  "hdr_dexSize cursor = read_u4 cursor 12"

definition hdr_verifierDepsSize :: "u1 list \<Rightarrow> u4 option" where
  "hdr_verifierDepsSize cursor = read_u4 cursor 16"

definition hdr_quickeningInfoSize :: "u1 list \<Rightarrow> u4 option" where
  "hdr_quickeningInfoSize cursor = read_u4 cursor 20"

section \<open>vdex.c: validation\<close>

definition vdex_isMagicValid :: "u1 list \<Rightarrow> bool option" where
  "vdex_isMagicValid cursor =
     (case hdr_magic cursor of
        None \<Rightarrow> None
      | Some m \<Rightarrow> Some (memcmp m kVdexMagic = 0))"

text \<open>
  The loop of \<open>vdex_isVersionValid\<close> over the rows \<open>0 .. kNumVdexVersions - 1\<close> of the
  version table, returning at the first row that matches.
\<close>

fun version_loop :: "u1 list \<Rightarrow> u1 list list \<Rightarrow> bool" where
  "version_loop ver [] = False"
| "version_loop ver (row # rows) =
     (if memcmp ver (take kVdexVersionLen row) = 0 then True else version_loop ver rows)"

definition vdex_isVersionValid :: "u1 list \<Rightarrow> bool option" where
  "vdex_isVersionValid cursor =
     (case hdr_version cursor of
        None \<Rightarrow> None
      | Some ver \<Rightarrow> Some (version_loop ver kVdexMagicVersions))"

text \<open>\<open>&&\<close> evaluates its right operand only when the left one is true.\<close>

definition vdex_isValidVdex :: "u1 list \<Rightarrow> bool option" where
  "vdex_isValidVdex cursor =
     (case vdex_isMagicValid cursor of
        None \<Rightarrow> None
      | Some False \<Rightarrow> Some False
      | Some True \<Rightarrow> vdex_isVersionValid cursor)"

section \<open>vdex.c: section offsets\<close>

definition vdex_hasDexSection :: "u1 list \<Rightarrow> bool option" where
  "vdex_hasDexSection cursor = map_option (\<lambda>d. d \<noteq> 0) (hdr_dexSize cursor)"

text \<open>
  \<open>sizeof(VdexChecksum) * numberOfDexFiles\<close>, returned as \<open>u4\<close>: the product modulo
  \<open>2 ^ 32\<close>.
\<close>

definition vdex_GetSizeOfChecksumsSection :: "u1 list \<Rightarrow> u4 option" where
  "vdex_GetSizeOfChecksumsSection cursor = map_option (\<lambda>n. 4 * n) (hdr_numberOfDexFiles cursor)"

text \<open>Pointer results are distances from \<open>cursor\<close>; offset results are \<open>u4\<close>.\<close>

definition vdex_DexBegin :: "u1 list \<Rightarrow> nat option" where
  "vdex_DexBegin cursor =
     map_option (\<lambda>sz. sizeof_vdexHeader + unat sz) (vdex_GetSizeOfChecksumsSection cursor)"

definition vdex_DexBeginOffset :: "u1 list \<Rightarrow> u4 option" where
  "vdex_DexBeginOffset cursor =
     map_option (\<lambda>sz. of_nat sizeof_vdexHeader + sz) (vdex_GetSizeOfChecksumsSection cursor)"

definition vdex_DexEnd :: "u1 list \<Rightarrow> nat option" where
  "vdex_DexEnd cursor =
     (case hdr_dexSize cursor of
        None \<Rightarrow> None
      | Some d \<Rightarrow> map_option (\<lambda>b. b + unat d) (vdex_DexBegin cursor))"

definition vdex_DexEndOffset :: "u1 list \<Rightarrow> u4 option" where
  "vdex_DexEndOffset cursor =
     (case hdr_dexSize cursor of
        None \<Rightarrow> None
      | Some d \<Rightarrow> map_option (\<lambda>b. b + d) (vdex_DexBeginOffset cursor))"

definition vdex_GetVerifierDepsDataOffset :: "u1 list \<Rightarrow> u4 option" where
  "vdex_GetVerifierDepsDataOffset cursor =
     (case hdr_dexSize cursor of
        None \<Rightarrow> None
      | Some d \<Rightarrow> map_option (\<lambda>b. b + d) (vdex_DexBeginOffset cursor))"

definition vdex_GetVerifierDepsDataSize :: "u1 list \<Rightarrow> u4 option" where
  "vdex_GetVerifierDepsDataSize cursor = hdr_verifierDepsSize cursor"

definition vdex_GetQuickeningInfoOffset :: "u1 list \<Rightarrow> u4 option" where
  "vdex_GetQuickeningInfoOffset cursor =
     (case hdr_verifierDepsSize cursor of
        None \<Rightarrow> None
      | Some v \<Rightarrow> map_option (\<lambda>b. b + v) (vdex_GetVerifierDepsDataOffset cursor))"

definition vdex_GetQuickeningInfoSize :: "u1 list \<Rightarrow> u4 option" where
  "vdex_GetQuickeningInfoSize cursor = hdr_quickeningInfoSize cursor"

section \<open>vdex.c: iterating over the embedded DEX files\<close>

text \<open>
  \<open>dex.h\<close> is not among the sources, so the place of \<open>fileSize\<close> inside \<open>dexHeader\<close>
  is a parameter \<open>fsOff\<close> of the model (the DEX format puts it at byte 32 of a
  112-byte header). \<open>dex_fileSize fsOff cursor p\<close> is \<open>pDexHeader->fileSize\<close> for the
  header at distance \<open>p\<close> from \<open>cursor\<close>.
\<close>

definition dex_fileSize :: "nat \<Rightarrow> u1 list \<Rightarrow> nat \<Rightarrow> u4 option" where
  "dex_fileSize fsOff cursor p = read_u4 cursor (p + fsOff)"

text \<open>
  \<open>vdex_GetNextDexFileData(cursor, &offset)\<close>: the result is the returned pointer
  (\<open>None\<close> for \<open>NULL\<close>, otherwise its distance from \<open>cursor\<close>) together with the value
  left in \<open>*offset\<close>. The outer option is the memory fault. The messages the function
  logs are not part of the model.
\<close>

definition vdex_GetNextDexFileData :: "nat \<Rightarrow> u1 list \<Rightarrow> u4 \<Rightarrow> (nat option \<times> u4) option" where
  "vdex_GetNextDexFileData fsOff cursor offset =
     (if offset = 0 then
        (case vdex_hasDexSection cursor of
           None \<Rightarrow> None
         | Some True \<Rightarrow>
             (case vdex_DexBegin cursor of
                None \<Rightarrow> None
              | Some dexBuf \<Rightarrow>
                  (case vdex_GetSizeOfChecksumsSection cursor of
                     None \<Rightarrow> None
                   | Some sz \<Rightarrow>
                       (case dex_fileSize fsOff cursor dexBuf of
                          None \<Rightarrow> None
                        | Some fileSize \<Rightarrow>
                            Some (Some dexBuf, (of_nat sizeof_vdexHeader + sz) + fileSize))))
         | Some False \<Rightarrow> Some (None, offset))
      else
        (case dex_fileSize fsOff cursor (unat offset) of
           None \<Rightarrow> None
         | Some fileSize \<Rightarrow>
             (let dexBuf = unat offset;
                  dexBufMax = dexBuf + unat fileSize
              in case vdex_DexEnd cursor of
                   None \<Rightarrow> None
                 | Some dexEnd \<Rightarrow>
                     if dexBufMax = dexEnd then Some (Some dexBuf, offset + fileSize)
                     else if dexBufMax \<le> dexEnd then Some (Some dexBuf, offset + fileSize)
                     else Some (None, offset))))"

text \<open>
  The slices a caller obtains from \<open>k\<close> successive calls that start with \<open>*offset = off\<close>,
  stopping at the first \<open>NULL\<close>: each entry is the returned pointer and the offset the
  call left behind.
\<close>

fun dex_slices :: "nat \<Rightarrow> u1 list \<Rightarrow> nat \<Rightarrow> u4 \<Rightarrow> (nat \<times> u4) list option" where
  "dex_slices fsOff cursor 0 off = Some []"
| "dex_slices fsOff cursor (Suc k) off =
     (case vdex_GetNextDexFileData fsOff cursor off of
        None \<Rightarrow> None
      | Some (None, off') \<Rightarrow> Some []
      | Some (Some p, off') \<Rightarrow> map_option ((#) (p, off')) (dex_slices fsOff cursor k off'))"

section \<open>vdex.c: location checksums\<close>

text \<open>
  \<open>checksums\<close> is a \<open>u4 *\<close> at \<open>cursor + sizeof(vdexHeader)\<close>; entry \<open>fileIdx\<close> lies at
  byte \<open>24 + 4 * fileIdx\<close>.
\<close>

definition vdex_GetLocationChecksum :: "u1 list \<Rightarrow> u4 \<Rightarrow> u4 option" where
  "vdex_GetLocationChecksum cursor fileIdx = read_u4 cursor (sizeof_vdexHeader + 4 * unat fileIdx)"

definition vdex_SetLocationChecksum :: "u1 list \<Rightarrow> u4 \<Rightarrow> u4 \<Rightarrow> u1 list option" where
  "vdex_SetLocationChecksum cursor fileIdx v =
     write_u4 cursor (sizeof_vdexHeader + 4 * unat fileIdx) v"

section \<open>Logging and the collaborators outside the sources\<close>

text \<open>
  \<open>LOGMSG(level, ...)\<close> appends to the log; only the level and the fixed part of the
  message are kept. The log is modelled in \<open>main\<close>, \<open>selectVdexBackend\<close>,
  \<open>vdex_backendInit\<close> and \<open>vdex_updateChecksums\<close>, where it reports what became of a
  file, and there for the messages at the levels fatal, error and warning; the debug
  messages and the \<open>DISPLAY\<close> lines are left out. What the logger does after a fatal
  message is not part of the sources.
\<close>

datatype log_level = l_FATAL | l_ERROR | l_WARN | l_INFO | l_DEBUG

type_synonym log_entry = "log_level \<times> string"

text \<open>A C \<open>int\<close> is a 32-bit word read with \<open>sint\<close>.\<close>

type_synonym c_int = "32 word"

type_synonym size_t = "64 word"

record runArgs =
  outputDir :: "string option"
  fileOverride :: bool
  unquicken :: bool
  enableDisassembler :: bool
  dumpDeps :: bool
  newCrcFile :: "string option"

datatype VdexBackend = kBackendV6 | kBackendV10 | kBackendMax

datatype backend_fn =
    vdex_initDepsInfo_v6 | vdex_destroyDepsInfo_v6 | vdex_dumpDepsInfo_v6 | vdex_process_v6
  | vdex_initDepsInfo_v10 | vdex_destroyDepsInfo_v10 | vdex_dumpDepsInfo_v10 | vdex_process_v10

text \<open>The four static function pointers of \<open>vdex.c\<close>; \<open>None\<close> is the null pointer.\<close>

record backend_ptrs =
  initDepsInfoPtr :: "backend_fn option"
  destroyDepsInfoPtr :: "backend_fn option"
  dumpDepsInfoPtr :: "backend_fn option"
  processPtr :: "backend_fn option"

text \<open>
  The functions of \<open>utils.c\<close>, \<open>out_writer.c\<close> and the two backends are not among the
  sources; what they return is a parameter of the model. \<open>utils_mapFileToRead\<close> gives
  the mapping of a file (its length is \<open>fileSz\<close>) or \<open>None\<close> for \<open>NULL\<close>;
  \<open>utils_processFileWithCsums\<close> gives the checksum array (or \<open>NULL\<close>) and \<open>nSums\<close>;
  \<open>backend_call_process\<close> is the value returned by the function \<open>processPtr\<close> points to,
  \<open>backend_call_initDepsInfo\<close> tells whether the one \<open>initDepsInfoPtr\<close> points to
  returns a non-null pointer.
\<close>

record env =
  utils_mapFileToRead :: "string \<Rightarrow> u1 list option"
  utils_processFileWithCsums :: "string \<Rightarrow> u4 list option \<times> c_int"
  outWriter_VdexFile :: "runArgs \<Rightarrow> string \<Rightarrow> u1 list \<Rightarrow> bool"
  backend_call_process :: "backend_fn \<Rightarrow> string \<Rightarrow> u1 list \<Rightarrow> runArgs \<Rightarrow> c_int"
  backend_call_initDepsInfo :: "backend_fn \<Rightarrow> u1 list \<Rightarrow> bool"

section \<open>vdex.c: binding the backend\<close>

definition vdex_backendInit :: "VdexBackend \<Rightarrow> backend_ptrs \<Rightarrow> backend_ptrs \<times> log_entry list" where
  "vdex_backendInit ver ptrs =
     (case ver of
        kBackendV6 \<Rightarrow>
          (ptrs\<lparr>initDepsInfoPtr := Some vdex_initDepsInfo_v6,
                destroyDepsInfoPtr := Some vdex_destroyDepsInfo_v6,
                dumpDepsInfoPtr := Some vdex_dumpDepsInfo_v6,
                processPtr := Some vdex_process_v6\<rparr>, [])
      | kBackendV10 \<Rightarrow>
          (ptrs\<lparr>initDepsInfoPtr := Some vdex_initDepsInfo_v10,
                destroyDepsInfoPtr := Some vdex_destroyDepsInfo_v10,
                dumpDepsInfoPtr := Some vdex_dumpDepsInfo_v10,
                processPtr := Some vdex_process_v10\<rparr>, [])
      | kBackendMax \<Rightarrow> (ptrs, [(l_FATAL, ''Invalid Vdex backend version'')]))"

section \<open>vdexExtractor.c: selecting the backend\<close>

text \<open>
  \<open>strtol(s, &end, 10)\<close> of the C library in the C locale, on the bytes from \<open>s\<close> to the
  end of the mapping: white space is skipped, one sign is accepted, decimal digits are
  accumulated up to the first byte that is not a digit, and the result saturates at
  \<open>LONG_MIN\<close> and \<open>LONG_MAX\<close> (64-bit \<open>long\<close>). No digits give 0. Running off the
  mapping before the number ends is the memory fault.
\<close>

definition isspace :: "u1 \<Rightarrow> bool" where
  "isspace c = (c = 0x20 \<or> (0x09 \<le> c \<and> c \<le> 0x0D))"

definition isdigit :: "u1 \<Rightarrow> bool" where
  "isdigit c = (0x30 \<le> c \<and> c \<le> 0x39)"

definition LONG_MAX :: int where
  "LONG_MAX = 2 ^ 63 - 1"

definition LONG_MIN :: int where
  "LONG_MIN = - (2 ^ 63)"

fun strtol_skip :: "u1 list \<Rightarrow> u1 list option" where
  "strtol_skip [] = None"
| "strtol_skip (c # cs) = (if isspace c then strtol_skip cs else Some (c # cs))"

fun strtol_digits :: "int \<Rightarrow> u1 list \<Rightarrow> int option" where
  "strtol_digits acc [] = None"
| "strtol_digits acc (c # cs) =
     (if isdigit c then strtol_digits (acc * 10 + (uint c - 0x30)) cs else Some acc)"

definition strtol :: "u1 list \<Rightarrow> int option" where
  "strtol s =
     (case strtol_skip s of
        None \<Rightarrow> None
      | Some [] \<Rightarrow> None
      | Some (c # cs) \<Rightarrow>
          if c = 0x2D then map_option (\<lambda>v. max LONG_MIN (- v)) (strtol_digits 0 cs)
          else if c = 0x2B then map_option (min LONG_MAX) (strtol_digits 0 cs)
          else map_option (min LONG_MAX) (strtol_digits 0 (c # cs)))"

text \<open>
  \<open>selectVdexBackend\<close>: the returned flag, the function pointers afterwards and what
  was logged. \<open>pVdexHeader->version\<close> is handed to \<open>strtol\<close> as a C string, which
  starts at byte 4 of the mapping.
\<close>

definition selectVdexBackend :: "backend_ptrs \<Rightarrow> u1 list \<Rightarrow> (bool \<times> backend_ptrs \<times> log_entry list) option" where
  "selectVdexBackend ptrs cursor =
     (case strtol (drop 4 cursor) of
        None \<Rightarrow> None
      | Some v \<Rightarrow>
          if v = 6 then
            (case vdex_backendInit kBackendV6 ptrs of (ptrs', lg) \<Rightarrow> Some (True, ptrs', lg))
          else if v = 10 then
            (case vdex_backendInit kBackendV10 ptrs of (ptrs', lg) \<Rightarrow> Some (True, ptrs', lg))
          else Some (False, ptrs, [(l_ERROR, ''Invalid Vdex version'')]))"


section \<open>vdex.c: header dump, processing and the checksum rewriter\<close>

text \<open>
  \<open>vdex_dumpHeaderInfo\<close> prints at debug level; what matters for the control flow is
  which memory it reads: the header fields, and \<open>vdex_GetLocationChecksum(cursor, i)\<close>
  for every \<open>i < numberOfDexFiles\<close> (the arguments of \<open>LOGMSG_RAW\<close> are taken to be
  evaluated whatever the log level is).
\<close>

fun dump_checksums :: "u1 list \<Rightarrow> u4 list \<Rightarrow> unit option" where
  "dump_checksums cursor [] = Some ()"
| "dump_checksums cursor (i # is) =
     (case vdex_GetLocationChecksum cursor i of
        None \<Rightarrow> None
      | Some c \<Rightarrow> dump_checksums cursor is)"

definition vdex_dumpHeaderInfo :: "u1 list \<Rightarrow> unit option" where
  "vdex_dumpHeaderInfo cursor =
     (case (hdr_magic cursor, hdr_version cursor, vdex_GetVerifierDepsDataSize cursor,
            vdex_GetVerifierDepsDataOffset cursor, vdex_GetQuickeningInfoSize cursor,
            vdex_GetQuickeningInfoOffset cursor, hdr_numberOfDexFiles cursor) of
        (Some m, Some v, Some ds, Some d, Some qs, Some q, Some n) \<Rightarrow>
          dump_checksums cursor (map of_nat [0..<unat n])
      | _ \<Rightarrow> None)"

text \<open>\<open>vdex_process\<close> calls through \<open>processPtr\<close>; a null pointer there is a fault.\<close>

definition vdex_process :: "env \<Rightarrow> backend_ptrs \<Rightarrow> string \<Rightarrow> u1 list \<Rightarrow> runArgs \<Rightarrow> c_int option" where
  "vdex_process e ptrs VdexFileName cursor pRunArgs =
     (case processPtr ptrs of
        None \<Rightarrow> None
      | Some f \<Rightarrow> Some (backend_call_process e f VdexFileName cursor pRunArgs))"

definition vdex_initDepsInfo :: "env \<Rightarrow> backend_ptrs \<Rightarrow> u1 list \<Rightarrow> bool option" where
  "vdex_initDepsInfo e ptrs vdexFileBuf =
     (case initDepsInfoPtr ptrs of
        None \<Rightarrow> None
      | Some f \<Rightarrow> Some (backend_call_initDepsInfo e f vdexFileBuf))"

text \<open>
  The loop \<open>for (u4 i = 0; i < pVdexHeader->numberOfDexFiles; ++i)\<close> of
  \<open>vdex_updateChecksums\<close>. The bound \<open>n\<close> is read once: the stores go to byte 24 and
  beyond and leave the header field at bytes 8 to 11 as it is. \<open>checksums[i]\<close> outside
  the array is a fault.
\<close>

function set_checksums_loop :: "u1 list \<Rightarrow> u4 \<Rightarrow> u4 \<Rightarrow> u4 list \<Rightarrow> u1 list option" where
  "set_checksums_loop buf i n checksums =
     (if i < n then
        (if unat i < length checksums then
           (case vdex_SetLocationChecksum buf i (checksums ! unat i) of
              None \<Rightarrow> None
            | Some buf' \<Rightarrow> set_checksums_loop buf' (i + 1) n checksums)
         else None)
      else Some buf)"
  by pat_completeness auto
termination
proof (relation "measure (\<lambda>(buf, i, n, checksums). unat n - unat i)")
  show "wf (measure (\<lambda>(buf, i, n, checksums). unat n - unat i))"
    by simp
next
  fix buf :: "u1 list" and i n :: u4 and checksums :: "u4 list" and buf' :: "u1 list"
  assume "i < n"
  then have lt: "unat i < unat n"
    by (simp add: word_less_nat_alt)
  have "unat n < 2 ^ 32"
    using unsigned_less [of n, where ?'a = nat] by simp
  with lt have "Suc (unat i) mod 2 ^ 32 = Suc (unat i)"
    by simp
  then have "unat (i + 1) = Suc (unat i)"
    by (simp add: unat_word_ariths)
  with lt show "((buf', i + 1, n, checksums), (buf, i, n, checksums))
      \<in> measure (\<lambda>(buf, i, n, checksums). unat n - unat i)"
    by simp
qed

declare set_checksums_loop.simps [simp del]

text \<open>
  The outcome of \<open>vdex_updateChecksums\<close>: the returned flag, the mapping as it is when
  it is unmapped (\<open>None\<close> when the file could not be mapped), the buffer handed to
  \<open>outWriter_VdexFile\<close> when that call was made and succeeded, and the log. The cast
  \<open>(u4)nCsums\<close> keeps the 32 bits of \<open>nCsums\<close>.
\<close>

record update_result =
  upd_ret :: bool
  upd_buf :: "u1 list option"
  upd_written :: "u1 list option"
  upd_log :: "log_entry list"

definition vdex_updateChecksums :: "env \<Rightarrow> string \<Rightarrow> c_int \<Rightarrow> u4 list \<Rightarrow> runArgs \<Rightarrow> update_result option" where
  "vdex_updateChecksums e inVdexFileName nCsums checksums pRunArgs =
     (case utils_mapFileToRead e inVdexFileName of
        None \<Rightarrow>
          Some \<lparr>upd_ret = False, upd_buf = None, upd_written = None,
                upd_log = [(l_ERROR, ''open & map failed'')]\<rparr>
      | Some buf \<Rightarrow>
          (case vdex_isValidVdex buf of
             None \<Rightarrow> None
           | Some False \<Rightarrow>
               Some \<lparr>upd_ret = False, upd_buf = Some buf, upd_written = None,
                     upd_log = [(l_WARN, ''is an invalid Vdex file'')]\<rparr>
           | Some True \<Rightarrow>
               (case hdr_numberOfDexFiles buf of
                  None \<Rightarrow> None
                | Some n \<Rightarrow>
                    if nCsums \<noteq> n then
                      Some \<lparr>upd_ret = False, upd_buf = Some buf, upd_written = None,
                            upd_log = [(l_ERROR, ''checksums loaded from file, although Vdex has Dex entries'')]\<rparr>
                    else
                      (case set_checksums_loop buf 0 n checksums of
                         None \<Rightarrow> None
                       | Some buf' \<Rightarrow>
                           if \<not> outWriter_VdexFile e pRunArgs inVdexFileName buf' then
                             Some \<lparr>upd_ret = False, upd_buf = Some buf', upd_written = None,
                                   upd_log = [(l_ERROR, ''Failed to write updated Vdex file'')]\<rparr>
                           else
                             Some \<lparr>upd_ret = True, upd_buf = Some buf', upd_written = Some buf',
                                   upd_log = []\<rparr>))))"

section \<open>vdexExtractor.c: main\<close>

text \<open>
  \<open>main\<close> from the point where the options are parsed and the input files are
  loaded. \<open>sizeof(dexHeader)\<close> is the parameter \<open>szDexHeader\<close> (\<open>dex.h\<close> is not among
  the sources). The state of the loop over the files is the function pointers, the two
  counters (\<open>size_t\<close>) and the log. The status of the disassembler output
  (\<open>log_setDisStatus\<close>) belongs to the logger and is not modelled.
\<close>

datatype exit_code = EXIT_SUCCESS | EXIT_FAILURE

record main_state =
  ptrs :: backend_ptrs
  processedVdexCnt :: size_t
  processedDexCnt :: size_t
  logs :: "log_entry list"

definition add_log :: "main_state \<Rightarrow> log_entry list \<Rightarrow> main_state" where
  "add_log st es = st\<lparr>logs := logs st @ es\<rparr>"

text \<open>The body of the loop for one file; each \<open>continue\<close> is a result of its own.\<close>

definition process_file :: "env \<Rightarrow> runArgs \<Rightarrow> nat \<Rightarrow> main_state \<Rightarrow> string \<Rightarrow> main_state option" where
  "process_file e pRunArgs szDexHeader st f =
     (case utils_mapFileToRead e f of
        None \<Rightarrow> Some (add_log st [(l_ERROR, ''Open & map failed - skipping'')])
      | Some buf \<Rightarrow>
          if length buf < sizeof_vdexHeader + szDexHeader then
            Some (add_log st [(l_WARN, ''Invalid input file - skipping'')])
          else
            (case vdex_isValidVdex buf of
               None \<Rightarrow> None
             | Some False \<Rightarrow> Some (add_log st [(l_WARN, ''Invalid Vdex header - skipping'')])
             | Some True \<Rightarrow>
                 (case vdex_dumpHeaderInfo buf of
                    None \<Rightarrow> None
                  | Some u \<Rightarrow>
                      (case selectVdexBackend (ptrs st) buf of
                         None \<Rightarrow> None
                       | Some (False, ptrs', lg) \<Rightarrow>
                           Some (add_log (st\<lparr>ptrs := ptrs'\<rparr>)
                                   (lg @ [(l_WARN, ''Failed to initialize Vdex backend - skipping'')]))
                       | Some (True, ptrs', lg) \<Rightarrow>
                           (case (if dumpDeps pRunArgs
                                  then map_option
                                         (\<lambda>nonnull. if nonnull then []
                                                     else [(l_WARN, ''Empty verified dependency data'')])
                                         (vdex_initDepsInfo e ptrs' buf)
                                  else Some []) of
                              None \<Rightarrow> None
                            | Some lg' \<Rightarrow>
                                (case vdex_process e ptrs' f buf pRunArgs of
                                   None \<Rightarrow> None
                                 | Some r \<Rightarrow>
                                     if r = - 1 then
                                       Some (add_log (st\<lparr>ptrs := ptrs'\<rparr>)
                                               (lg @ lg' @ [(l_ERROR, ''Failed to process Dex files - skipping'')]))
                                     else
                                       Some (add_log
                                               (st\<lparr>ptrs := ptrs',
                                                    processedDexCnt := processedDexCnt st + scast r,
                                                    processedVdexCnt := processedVdexCnt st + 1\<rparr>)
                                               (lg @ lg'))))))))"

fun main_loop :: "env \<Rightarrow> runArgs \<Rightarrow> nat \<Rightarrow> main_state \<Rightarrow> string list \<Rightarrow> main_state option" where
  "main_loop e pRunArgs szDexHeader st [] = Some st"
| "main_loop e pRunArgs szDexHeader st (f # fs) =
     (case process_file e pRunArgs szDexHeader st f of
        None \<Rightarrow> None
      | Some st' \<Rightarrow> main_loop e pRunArgs szDexHeader st' fs)"

definition init_state :: main_state where
  "init_state =
     \<lparr>ptrs = \<lparr>initDepsInfoPtr = None, destroyDepsInfoPtr = None,
              dumpDepsInfoPtr = None, processPtr = None\<rparr>,
      processedVdexCnt = 0, processedDexCnt = 0, logs = []\<rparr>"

text \<open>
  The exit status handed to \<open>exitWrapper\<close> and the log: the checksum update when
  \<open>--new-crc\<close> was given, the loop over the files otherwise.
\<close>

definition main_run :: "env \<Rightarrow> runArgs \<Rightarrow> nat \<Rightarrow> string list \<Rightarrow> (exit_code \<times> log_entry list) option" where
  "main_run e pRunArgs szDexHeader files =
     (case newCrcFile pRunArgs of
        Some crc \<Rightarrow>
          (case files of
             [f] \<Rightarrow>
               (case utils_processFileWithCsums e crc of
                  (Some checksums, nSums) \<Rightarrow>
                    if sint nSums < 1 then
                      Some (EXIT_FAILURE, [(l_ERROR, ''Failed to extract new location checksums'')])
                    else
                      (case vdex_updateChecksums e f nSums checksums pRunArgs of
                         None \<Rightarrow> None
                       | Some r \<Rightarrow>
                           if \<not> upd_ret r then
                             Some (EXIT_FAILURE,
                                   upd_log r @ [(l_ERROR, ''Failed to update location checksums'')])
                           else Some (EXIT_SUCCESS, upd_log r))
                | (None, nSums) \<Rightarrow>
                    Some (EXIT_FAILURE, [(l_ERROR, ''Failed to extract new location checksums'')]))
           | _ \<Rightarrow>
               Some (EXIT_FAILURE,
                     [(l_ERROR, ''Exactly one input Vdex file is expected when updating location checksums'')]))
      | None \<Rightarrow>
          (case main_loop e pRunArgs szDexHeader init_state files of
             None \<Rightarrow> None
           | Some st \<Rightarrow> Some (EXIT_SUCCESS, logs st)))"

text \<open>
  Validation succeeds for a file when it is mapped, passes the size check and
  \<open>vdex_isValidVdex\<close> returns true.
\<close>

definition file_validates :: "env \<Rightarrow> nat \<Rightarrow> string \<Rightarrow> bool" where
  "file_validates e szDexHeader f =
     (case utils_mapFileToRead e f of
        None \<Rightarrow> False
      | Some buf \<Rightarrow>
          \<not> length buf < sizeof_vdexHeader + szDexHeader \<and> vdex_isValidVdex buf = Some True)"

section \<open>Well-formed containers\<close>

text \<open>
  The layout the specification gives for a VDEX file: after the header come
  \<open>numberOfDexFiles\<close> checksums, then \<open>numberOfDexFiles\<close> DEX files back to back, each
  as long as its own \<open>fileSize\<close> says and long enough to hold that field, together
  \<open>dexSize\<close> bytes; then the verifier dependencies and the quickening info, and their
  lengths add up to the length of the file. \<open>dex_chain\<close> walks \<open>k\<close> DEX files from
  position \<open>pos\<close> and gives the position after the last one. There is at least one
  DEX file, and the file is shorter than \<open>2 ^ 32\<close> bytes, so that every section offset
  fits the \<open>u4\<close> the accessors return.
\<close>

fun dex_chain :: "nat \<Rightarrow> u1 list \<Rightarrow> nat \<Rightarrow> nat \<Rightarrow> nat option" where
  "dex_chain fsOff cursor 0 pos = Some pos"
| "dex_chain fsOff cursor (Suc k) pos =
     (case dex_fileSize fsOff cursor pos of
        None \<Rightarrow> None
      | Some fs \<Rightarrow>
          if fsOff + 4 \<le> unat fs then dex_chain fsOff cursor k (pos + unat fs) else None)"

definition wf_vdex :: "nat \<Rightarrow> u1 list \<Rightarrow> bool" where
  "wf_vdex fsOff cursor =
     (case (hdr_numberOfDexFiles cursor, hdr_dexSize cursor,
            hdr_verifierDepsSize cursor, hdr_quickeningInfoSize cursor) of
        (Some n, Some d, Some v, Some q) \<Rightarrow>
          vdex_isValidVdex cursor = Some True
          \<and> 0 < unat n
          \<and> length cursor < 2 ^ 32
          \<and> sizeof_vdexHeader + 4 * unat n + unat d + unat v + unat q = length cursor
          \<and> dex_chain fsOff cursor (unat n) (sizeof_vdexHeader + 4 * unat n)
              = Some (sizeof_vdexHeader + 4 * unat n + unat d)
      | _ \<Rightarrow> False)"

text \<open>
  A list of yielded slices abuts from position \<open>b\<close> on: the first slice begins at
  \<open>b\<close>, every slice ends \<open>fileSize\<close> bytes after its beginning, at the offset the call
  left behind, and the next slice begins exactly there.
\<close>

fun slices_abut :: "nat \<Rightarrow> u1 list \<Rightarrow> nat \<Rightarrow> (nat \<times> u4) list \<Rightarrow> bool" where
  "slices_abut fsOff cursor b [] = True"
| "slices_abut fsOff cursor b ((p, e) # r) =
     (p = b
      \<and> (case dex_fileSize fsOff cursor p of None \<Rightarrow> False | Some fs \<Rightarrow> unat e = p + unat fs)
      \<and> slices_abut fsOff cursor (unat e) r)"

section \<open>Example containers\<close>

text \<open>
  Small containers on which the theorems below are exercised. \<open>vdex_hdr\<close> lays out
  the 24 header bytes; \<open>dex_stub fs len\<close> is \<open>len\<close> bytes that carry \<open>fs\<close> in the
  \<open>fileSize\<close> field at byte 32 and zeros elsewhere.
\<close>

definition vdex_hdr :: "u1 list \<Rightarrow> u4 \<Rightarrow> u4 \<Rightarrow> u4 \<Rightarrow> u4 \<Rightarrow> u1 list" where
  "vdex_hdr ver n d v q =
     [0x76, 0x64, 0x65, 0x78] @ ver @ bytes_of_u4 n @ bytes_of_u4 d @ bytes_of_u4 v @ bytes_of_u4 q"

definition dex_stub :: "u4 \<Rightarrow> nat \<Rightarrow> u1 list" where
  "dex_stub fs len = replicate 32 0 @ bytes_of_u4 fs @ replicate (len - 36) 0"

text \<open>Version 010, two DEX files of 112 bytes each, checksums \<open>0xA\<close> and \<open>0xB\<close>.\<close>

definition good_vdex :: "u1 list" where
  "good_vdex =
     vdex_hdr [0x30, 0x31, 0x30, 0x00] 2 0xE0 0 0 @ bytes_of_u4 0xA @ bytes_of_u4 0xB
     @ dex_stub 0x70 112 @ dex_stub 0x70 112"

text \<open>
  One DEX file in a DEX section of 112 bytes, whose header claims a \<open>fileSize\<close> of
  4096 bytes.
\<close>

definition truncated_vdex :: "u1 list" where
  "truncated_vdex =
     vdex_hdr [0x30, 0x31, 0x30, 0x00] 1 0x70 0 0 @ bytes_of_u4 0xA @ dex_stub 0x1000 112"

text \<open>The version field is \<open>011\<close>.\<close>

definition bad_version_vdex :: "u1 list" where
  "bad_version_vdex =
     vdex_hdr [0x30, 0x31, 0x31, 0x00] 1 0x70 0 0 @ bytes_of_u4 0xA @ dex_stub 0x70 112"

text \<open>Version 006 with \<open>dexSize = 0\<close>.\<close>

definition nodex_vdex :: "u1 list" where
  "nodex_vdex = vdex_hdr [0x30, 0x30, 0x36, 0x00] 0 0 0 0 @ replicate 112 0"

text \<open>
  Three DEX files announced in a DEX section of \<open>0xFFFFFFFF\<close> bytes. The first header
  (at byte 36) has \<open>fileSize = 0x70\<close>; the second (at byte 148) has
  \<open>fileSize = 0xFFFFFF6C\<close>, so that \<open>148 + fileSize\<close> is \<open>2 ^ 32\<close>, below the end of the
  DEX section at \<open>2 ^ 32 + 35\<close>.
\<close>

definition wrap_vdex :: "u1 list" where
  "wrap_vdex =
     vdex_hdr [0x30, 0x31, 0x30, 0x00] 3 0xFFFFFFFF 0 0
     @ bytes_of_u4 0xA @ bytes_of_u4 0xB @ bytes_of_u4 0xC
     @ dex_stub 0x70 112
     @ (replicate 32 0 @ bytes_of_u4 0xFFFFFF6C)"


text \<open>
  An environment in which every file maps to \<open>m\<close>, the backend's \<open>process\<close> returns
  \<open>r\<close>, the writer succeeds and no checksum file can be read; and the options \<open>main\<close>
  starts from.
\<close>

definition sample_env :: "u1 list option \<Rightarrow> c_int \<Rightarrow> env" where
  "sample_env m r =
     \<lparr>utils_mapFileToRead = (\<lambda>f. m),
      utils_processFileWithCsums = (\<lambda>f. (None, 0)),
      outWriter_VdexFile = (\<lambda>a f b. True),
      backend_call_process = (\<lambda>fn f b a. r),
      backend_call_initDepsInfo = (\<lambda>fn b. True)\<rparr>"

definition sample_args :: runArgs where
  "sample_args =
     \<lparr>outputDir = None, fileOverride = False, unquicken = True,
      enableDisassembler = False, dumpDeps = False, newCrcFile = None\<rparr>"

text \<open>
  An environment for a checksum update: the file maps to \<open>buf\<close> and the checksum file
  holds \<open>checksums\<close>.
\<close>

definition crc_env :: "u1 list \<Rightarrow> u4 list \<Rightarrow> env" where
  "crc_env buf checksums =
     \<lparr>utils_mapFileToRead = (\<lambda>f. Some buf),
      utils_processFileWithCsums = (\<lambda>f. (Some checksums, of_nat (length checksums))),
      outWriter_VdexFile = (\<lambda>a f b. True),
      backend_call_process = (\<lambda>fn f b a. 0),
      backend_call_initDepsInfo = (\<lambda>fn b. True)\<rparr>"

text \<open>The pointers as \<open>vdex_backendInit(kBackendV10)\<close> binds them.\<close>

definition v10_ptrs :: backend_ptrs where
  "v10_ptrs =
     \<lparr>initDepsInfoPtr = Some vdex_initDepsInfo_v10,
      destroyDepsInfoPtr = Some vdex_destroyDepsInfo_v10,
      dumpDepsInfoPtr = Some vdex_dumpDepsInfo_v10,
      processPtr = Some vdex_process_v10\<rparr>"

section \<open>Basic facts\<close>

lemmas buf_defs = vdex_hdr_def dex_stub_def bytes_of_u4_def

lemmas rd_defs = read_u4_def read_bytes_def u4_of_bytes_def hdr_numberOfDexFiles_def
  hdr_dexSize_def hdr_verifierDepsSize_def hdr_quickeningInfoSize_def sizeof_vdexHeader_def
  dex_fileSize_def

lemmas it_defs = vdex_GetNextDexFileData_def vdex_hasDexSection_def vdex_DexBegin_def
  vdex_DexEnd_def vdex_GetSizeOfChecksumsSection_def

lemma memcmp_eq_iff: "length as = length bs \<Longrightarrow> (memcmp as bs = 0) = (as = bs)"
proof (induction as bs rule: list_induct2)
  case Nil
  then show ?case by simp
next
  case (Cons a as b bs)
  have "a \<noteq> b \<Longrightarrow> int (unat a) \<noteq> int (unat b)"
    by (simp add: word_uint_eq_iff)
  with Cons show ?case by auto
qed

lemma take_literal_length: "take n xs = ys \<Longrightarrow> length ys = n \<Longrightarrow> n \<le> length xs"
  by (drule arg_cong [where f = length]) simp

lemma read_u4_Some: "off + 4 \<le> length buf \<Longrightarrow> \<exists>v. read_u4 buf off = Some v"
  by (simp add: read_u4_def read_bytes_def)

lemma read_bytes_take:
  assumes "off + n \<le> m"
  shows "read_bytes (take m buf) off n = read_bytes buf off n"
proof -
  have "take n (drop off (take m buf)) = take n (drop off buf)"
    using assms by (simp add: drop_take min_def)
  moreover have "(off + n \<le> length (take m buf)) = (off + n \<le> length buf)"
    using assms by auto
  ultimately show ?thesis by (simp add: read_bytes_def)
qed

lemma unat_4_times: "4 * unat (n::u4) < 2 ^ 32 \<Longrightarrow> unat (4 * n) = 4 * unat n"
  by (simp add: unat_word_ariths)

lemma unat_add_nowrap: "unat (a::u4) + unat b < 2 ^ 32 \<Longrightarrow> unat (a + b) = unat a + unat b"
  by (simp add: unat_word_ariths)

lemma unat_begin_nowrap:
  assumes "24 + 4 * unat (n::u4) < 2 ^ 32"
  shows "unat (24 + 4 * n) = 24 + 4 * unat n"
proof -
  have "unat (4 * n) = 4 * unat n"
    using assms by (simp add: unat_4_times)
  moreover have "unat (24 :: u4) = 24" by simp
  ultimately show ?thesis
    using assms unat_add_nowrap [of 24 "4 * n"] by simp
qed

section \<open>Validation\<close>

lemma vdex_isMagicValid_eq:
  "vdex_isMagicValid cursor =
     (if 4 \<le> length cursor then Some (take 4 cursor = [0x76, 0x64, 0x65, 0x78]) else None)"
  by (simp add: vdex_isMagicValid_def hdr_magic_def read_bytes_def kVdexMagic_def memcmp_eq_iff)

lemma vdex_isVersionValid_eq:
  "vdex_isVersionValid cursor =
     (if 8 \<le> length cursor
      then Some (take 4 (drop 4 cursor) = [0x30, 0x30, 0x36, 0x00]
                 \<or> take 4 (drop 4 cursor) = [0x30, 0x31, 0x30, 0x00])
      else None)"
  by (simp add: vdex_isVersionValid_def hdr_version_def read_bytes_def kVdexMagicVersions_def
      kVdexVersionLen_def memcmp_eq_iff)

lemma vdex_isValidVdex_eq:
  "vdex_isValidVdex cursor =
     (if 4 \<le> length cursor then
        (if take 4 cursor = [0x76, 0x64, 0x65, 0x78] then
           (if 8 \<le> length cursor
            then Some (take 4 (drop 4 cursor) = [0x30, 0x30, 0x36, 0x00]
                       \<or> take 4 (drop 4 cursor) = [0x30, 0x31, 0x30, 0x00])
            else None)
         else Some False)
      else None)"
  by (simp add: vdex_isValidVdex_def vdex_isMagicValid_eq vdex_isVersionValid_eq)

lemma valid_iff:
  "(vdex_isValidVdex cursor = Some True) =
     (take 4 cursor = [0x76, 0x64, 0x65, 0x78]
      \<and> (take 4 (drop 4 cursor) = [0x30, 0x30, 0x36, 0x00]
         \<or> take 4 (drop 4 cursor) = [0x30, 0x31, 0x30, 0x00]))"
  (is "?L = (?M \<and> (?A \<or> ?B))")
proof -
  have m: "?M \<Longrightarrow> 4 \<le> length cursor"
    using take_literal_length [of 4 cursor "[0x76, 0x64, 0x65, 0x78]"] by simp
  have a: "?A \<Longrightarrow> 8 \<le> length cursor"
    using take_literal_length [of 4 "drop 4 cursor" "[0x30, 0x30, 0x36, 0x00]"] by simp
  have b: "?B \<Longrightarrow> 8 \<le> length cursor"
    using take_literal_length [of 4 "drop 4 cursor" "[0x30, 0x31, 0x30, 0x00]"] by simp
  show ?thesis
    unfolding vdex_isValidVdex_eq using m a b by auto
qed

lemma vdex_isMagicValid_take8: "vdex_isMagicValid (take 8 buf) = vdex_isMagicValid buf"
  by (simp add: vdex_isMagicValid_def hdr_magic_def read_bytes_take)

lemma vdex_isVersionValid_take8: "vdex_isVersionValid (take 8 buf) = vdex_isVersionValid buf"
  by (simp add: vdex_isVersionValid_def hdr_version_def read_bytes_take)

lemma vdex_isValidVdex_take8: "vdex_isValidVdex (take 8 buf) = vdex_isValidVdex buf"
  by (simp add: vdex_isValidVdex_def vdex_isMagicValid_take8 vdex_isVersionValid_take8
      split: option.splits bool.splits)

text \<open>
  C9. \<open>vdex_isValidVdex\<close>, \<open>vdex_isMagicValid\<close> and \<open>vdex_isVersionValid\<close> depend on the first
  8 bytes of the buffer only: on two buffers that agree on bytes 0 to 7 each of them
  returns the same result (the same flag, or the same fault when fewer than 8 bytes are
  mapped).
\<close>

theorem validation_first_8_bytes:
  assumes "take 8 buf1 = take 8 buf2"
  shows "vdex_isValidVdex buf1 = vdex_isValidVdex buf2
         \<and> vdex_isMagicValid buf1 = vdex_isMagicValid buf2
         \<and> vdex_isVersionValid buf1 = vdex_isVersionValid buf2"
proof -
  have "vdex_isValidVdex buf1 = vdex_isValidVdex (take 8 buf1)"
    by (simp add: vdex_isValidVdex_take8)
  also have "\<dots> = vdex_isValidVdex buf2"
    by (simp add: assms vdex_isValidVdex_take8)
  finally have a: "vdex_isValidVdex buf1 = vdex_isValidVdex buf2" .
  have "vdex_isMagicValid buf1 = vdex_isMagicValid (take 8 buf1)"
    by (simp add: vdex_isMagicValid_take8)
  also have "\<dots> = vdex_isMagicValid buf2"
    by (simp add: assms vdex_isMagicValid_take8)
  finally have b: "vdex_isMagicValid buf1 = vdex_isMagicValid buf2" .
  have "vdex_isVersionValid buf1 = vdex_isVersionValid (take 8 buf1)"
    by (simp add: vdex_isVersionValid_take8)
  also have "\<dots> = vdex_isVersionValid buf2"
    by (simp add: assms vdex_isVersionValid_take8)
  finally have c: "vdex_isVersionValid buf1 = vdex_isVersionValid buf2" .
  from a b c show ?thesis by simp
qed

text \<open>
  Two different containers with the same first 8 bytes, both accepted.
\<close>

theorem validation_first_8_bytes_witness:
  "take 8 good_vdex = take 8 truncated_vdex \<and> good_vdex \<noteq> truncated_vdex
   \<and> vdex_isValidVdex good_vdex = vdex_isValidVdex truncated_vdex
   \<and> vdex_isMagicValid good_vdex = vdex_isMagicValid truncated_vdex
   \<and> vdex_isVersionValid good_vdex = vdex_isVersionValid truncated_vdex
   \<and> vdex_isValidVdex good_vdex = Some True"
proof -
  have h: "take 8 good_vdex = take 8 truncated_vdex"
    by (simp add: good_vdex_def truncated_vdex_def buf_defs)
  have "good_vdex \<noteq> truncated_vdex"
    by (simp add: good_vdex_def truncated_vdex_def buf_defs)
  moreover have "vdex_isValidVdex good_vdex = Some True"
    by (simp add: good_vdex_def buf_defs vdex_isValidVdex_eq)
  ultimately show ?thesis
    using h validation_first_8_bytes [OF h] by simp
qed

section \<open>Section offsets\<close>

text \<open>
  C3. For every buffer that holds a whole header (24 bytes), the three offsets are
  computed from the header fields as \<open>vdex_DexBeginOffset = 24 + 4 * numberOfDexFiles\<close>,
  \<open>vdex_GetVerifierDepsDataOffset = vdex_DexBeginOffset + dexSize\<close> and
  \<open>vdex_GetQuickeningInfoOffset = vdex_GetVerifierDepsDataOffset + verifierDepsSize\<close>, in
  the arithmetic of \<open>u4\<close>: header, checksums, DEX files, verifier dependencies,
  quickening info. When the sum of the sizes stays below \<open>2 ^ 32\<close> the offsets are the
  sums as natural numbers too.
\<close>

theorem section_offsets:
  assumes "24 \<le> length cursor"
  shows "\<exists>n d v. hdr_numberOfDexFiles cursor = Some n \<and> hdr_dexSize cursor = Some d
           \<and> hdr_verifierDepsSize cursor = Some v
           \<and> vdex_DexBeginOffset cursor = Some (24 + 4 * n)
           \<and> vdex_GetVerifierDepsDataOffset cursor = Some (24 + 4 * n + d)
           \<and> vdex_GetQuickeningInfoOffset cursor = Some (24 + 4 * n + d + v)
           \<and> (24 + 4 * unat n + unat d + unat v < 2 ^ 32 \<longrightarrow>
                unat (24 + 4 * n) = 24 + 4 * unat n
                \<and> unat (24 + 4 * n + d) = 24 + 4 * unat n + unat d
                \<and> unat (24 + 4 * n + d + v) = 24 + 4 * unat n + unat d + unat v)"
proof -
  from assms obtain n where n: "hdr_numberOfDexFiles cursor = Some n"
    using read_u4_Some [of 8 cursor] by (auto simp: hdr_numberOfDexFiles_def)
  from assms obtain d where d: "hdr_dexSize cursor = Some d"
    using read_u4_Some [of 12 cursor] by (auto simp: hdr_dexSize_def)
  from assms obtain v where v: "hdr_verifierDepsSize cursor = Some v"
    using read_u4_Some [of 16 cursor] by (auto simp: hdr_verifierDepsSize_def)
  have b: "vdex_DexBeginOffset cursor = Some (24 + 4 * n)"
    using n by (simp add: vdex_DexBeginOffset_def vdex_GetSizeOfChecksumsSection_def
        sizeof_vdexHeader_def)
  have vd: "vdex_GetVerifierDepsDataOffset cursor = Some (24 + 4 * n + d)"
    using b d by (simp add: vdex_GetVerifierDepsDataOffset_def)
  have q: "vdex_GetQuickeningInfoOffset cursor = Some (24 + 4 * n + d + v)"
    using vd v by (simp add: vdex_GetQuickeningInfoOffset_def)
  have nat: "unat (24 + 4 * n) = 24 + 4 * unat n
      \<and> unat (24 + 4 * n + d) = 24 + 4 * unat n + unat d
      \<and> unat (24 + 4 * n + d + v) = 24 + 4 * unat n + unat d + unat v"
    if lt: "24 + 4 * unat n + unat d + unat v < 2 ^ 32"
  proof -
    have x: "unat (24 + 4 * n) = 24 + 4 * unat n"
      using lt by (simp add: unat_begin_nowrap)
    have y: "unat (24 + 4 * n + d) = 24 + 4 * unat n + unat d"
      using lt x unat_add_nowrap [of "24 + 4 * n" d] by simp
    have z: "unat (24 + 4 * n + d + v) = 24 + 4 * unat n + unat d + unat v"
      using lt y unat_add_nowrap [of "24 + 4 * n + d" v] by simp
    from x y z show ?thesis by simp
  qed
  from n d v b vd q nat show ?thesis by blast
qed

theorem section_offsets_witness:
  "24 \<le> length good_vdex
   \<and> 24 + 4 * unat (2 :: u4) + unat (0xE0 :: u4) + unat (0 :: u4) < (2 :: nat) ^ 32
   \<and> vdex_DexBeginOffset good_vdex = Some 32
   \<and> vdex_GetVerifierDepsDataOffset good_vdex = Some 256
   \<and> vdex_GetQuickeningInfoOffset good_vdex = Some 256"
proof -
  have len: "24 \<le> length good_vdex"
    by (simp add: good_vdex_def buf_defs)
  have "hdr_numberOfDexFiles good_vdex = Some 2" "hdr_dexSize good_vdex = Some 0xE0"
    "hdr_verifierDepsSize good_vdex = Some 0"
    by (simp_all add: good_vdex_def buf_defs rd_defs)
  with len section_offsets [OF len] show ?thesis by auto
qed

section \<open>Iterating over the DEX files\<close>

lemma dex_chain_numeral:
  "dex_chain fsOff cursor (numeral k) pos =
     (case dex_fileSize fsOff cursor pos of
        None \<Rightarrow> None
      | Some fs \<Rightarrow>
          if fsOff + 4 \<le> unat fs
          then dex_chain fsOff cursor (pred_numeral k) (pos + unat fs) else None)"
  by (simp add: numeral_eq_Suc)

lemma dex_slices_numeral:
  "dex_slices fsOff cursor (numeral k) off =
     (case vdex_GetNextDexFileData fsOff cursor off of
        None \<Rightarrow> None
      | Some (None, off') \<Rightarrow> Some []
      | Some (Some p, off') \<Rightarrow>
          map_option ((#) (p, off')) (dex_slices fsOff cursor (pred_numeral k) off'))"
  by (simp add: numeral_eq_Suc)

lemma dex_chain_mono: "dex_chain fsOff cursor k pos = Some e \<Longrightarrow> pos \<le> e"
proof (induction k arbitrary: pos)
  case 0
  then show ?case by simp
next
  case (Suc k)
  then show ?case
    by (fastforce split: option.splits if_splits)
qed

lemma first_call_Some:
  assumes "vdex_GetNextDexFileData fsOff cursor 0 = Some (Some p, off')"
  shows "\<exists>n fs. hdr_numberOfDexFiles cursor = Some n \<and> p = 24 + unat (4 * n)
           \<and> dex_fileSize fsOff cursor p = Some fs \<and> off' = 24 + 4 * n + fs"
  using assms
  by (auto simp: vdex_GetNextDexFileData_def vdex_DexBegin_def vdex_GetSizeOfChecksumsSection_def
      sizeof_vdexHeader_def split: option.splits bool.splits)

lemma later_call_Some:
  assumes "off \<noteq> 0" and "vdex_GetNextDexFileData fsOff cursor off = Some (Some p, off')"
  shows "p = unat off \<and> (\<exists>fs dexEnd. dex_fileSize fsOff cursor p = Some fs \<and> off' = off + fs
           \<and> vdex_DexEnd cursor = Some dexEnd \<and> p + unat fs \<le> dexEnd)"
  using assms
  by (auto simp: vdex_GetNextDexFileData_def Let_def split: option.splits if_splits)

lemma later_call_ok:
  assumes "off \<noteq> 0" and "dex_fileSize fsOff cursor (unat off) = Some fs"
    and "vdex_DexEnd cursor = Some dexEnd" and "unat off + unat fs \<le> dexEnd"
  shows "vdex_GetNextDexFileData fsOff cursor off = Some (Some (unat off), off + fs)"
  using assms by (simp add: vdex_GetNextDexFileData_def Let_def)

text \<open>
  On every call but the first, a slice that would end beyond \<open>vdex_DexEnd\<close> is
  refused: the call returns \<open>NULL\<close> and leaves the offset alone.
\<close>

lemma later_call_overrun:
  assumes "offset \<noteq> 0" and "dex_fileSize fsOff cursor (unat offset) = Some fs"
    and "vdex_DexEnd cursor = Some dexEnd" and "dexEnd < unat offset + unat fs"
  shows "vdex_GetNextDexFileData fsOff cursor offset = Some (None, offset)"
  using assms by (simp add: vdex_GetNextDexFileData_def)

text \<open>
  C1. On the first call (\<open>*offset = 0\<close>) the bounds are not checked. In
  \<open>truncated_vdex\<close> the DEX section ends at byte 140 and the only DEX header, at byte
  28, claims 4096 bytes: the slice would end at byte 4124, yet the call returns the
  pointer to byte 28, not \<open>NULL\<close>, and leaves 4124 in \<open>*offset\<close>.
\<close>

theorem first_call_overrun:
  "length truncated_vdex = 140
   \<and> vdex_isValidVdex truncated_vdex = Some True
   \<and> vdex_DexEnd truncated_vdex = Some 140
   \<and> dex_fileSize 32 truncated_vdex 28 = Some 0x1000
   \<and> vdex_GetNextDexFileData 32 truncated_vdex 0 = Some (Some 28, 0x101C)"
  by (simp add: truncated_vdex_def buf_defs rd_defs it_defs vdex_isValidVdex_eq)

text \<open>
  C10. When \<open>dexSize\<close> is 0 the first call returns \<open>NULL\<close> and leaves \<open>*offset\<close> at 0;
  however many calls a caller makes from there, no slice is yielded.
\<close>

theorem no_dex_section:
  assumes "hdr_dexSize cursor = Some 0"
  shows "vdex_GetNextDexFileData fsOff cursor 0 = Some (None, 0)
         \<and> dex_slices fsOff cursor k 0 = Some []"
proof -
  have a: "vdex_GetNextDexFileData fsOff cursor 0 = Some (None, 0)"
    using assms by (simp add: vdex_GetNextDexFileData_def vdex_hasDexSection_def)
  then have "dex_slices fsOff cursor k 0 = Some []"
    by (cases k) simp_all
  with a show ?thesis by simp
qed

theorem no_dex_section_witness:
  "hdr_dexSize nodex_vdex = Some 0
   \<and> vdex_GetNextDexFileData 32 nodex_vdex 0 = Some (None, 0)
   \<and> dex_slices 32 nodex_vdex 3 0 = Some []"
proof -
  have h: "hdr_dexSize nodex_vdex = Some 0"
    by (simp add: nodex_vdex_def buf_defs rd_defs)
  from h no_dex_section [OF h, of 32 3] show ?thesis by simp
qed

text \<open>
  What a successful call yields and leaves in \<open>*offset\<close>: on the first call the slice
  at \<open>vdex_DexBegin\<close> and \<open>vdex_DexBeginOffset + fileSize\<close>, on a later call the slice
  at the offset and the offset advanced by \<open>fileSize\<close>, both sums in \<open>u4\<close>.
\<close>

lemma call_offsets:
  assumes c: "vdex_GetNextDexFileData fsOff cursor off = Some (Some p, off1)"
    and fs: "dex_fileSize fsOff cursor p = Some fs"
  shows "if off = 0
         then vdex_DexBegin cursor = Some p
              \<and> (\<exists>b. vdex_DexBeginOffset cursor = Some b \<and> off1 = b + fs)
         else p = unat off \<and> off1 = off + fs"
proof (cases "off = 0")
  case True
  with c fs show ?thesis
    by (auto simp: vdex_GetNextDexFileData_def vdex_DexBeginOffset_def
        split: option.splits bool.splits)
next
  case False
  with later_call_Some [OF False c] fs show ?thesis by auto
qed

text \<open>
  The offset a successful call leaves behind is the end of the slice it yields, as
  long as that end is below \<open>2 ^ 32\<close>.
\<close>

lemma call_end_nowrap:
  assumes c: "vdex_GetNextDexFileData fsOff cursor off = Some (Some p, off1)"
  shows "\<exists>fs. dex_fileSize fsOff cursor p = Some fs
           \<and> (p + unat fs < 2 ^ 32 \<longrightarrow> unat off1 = p + unat fs \<and> off1 \<noteq> 0)"
proof (cases "off = 0")
  case True
  with c obtain n fs where n: "hdr_numberOfDexFiles cursor = Some n" and p: "p = 24 + unat (4 * n)"
    and fs: "dex_fileSize fsOff cursor p = Some fs" and o: "off1 = 24 + 4 * n + fs"
    using first_call_Some by blast
  have "unat off1 = p + unat fs \<and> off1 \<noteq> 0" if lt: "p + unat fs < 2 ^ 32"
  proof -
    have a: "unat (24 + 4 * n) = 24 + unat (4 * n)"
      using lt p unat_add_nowrap [of 24 "4 * n"] by simp
    have b: "unat off1 = p + unat fs"
      using lt p a o unat_add_nowrap [of "24 + 4 * n" fs] by simp
    then have "unat off1 \<noteq> 0" using p by simp
    then have "off1 \<noteq> 0" by auto
    with b show ?thesis by simp
  qed
  with fs show ?thesis by blast
next
  case False
  with c obtain fs where p: "p = unat off" and fs: "dex_fileSize fsOff cursor p = Some fs"
    and o: "off1 = off + fs"
    using later_call_Some by blast
  have "unat off1 = p + unat fs \<and> off1 \<noteq> 0" if lt: "p + unat fs < 2 ^ 32"
  proof -
    have b: "unat off1 = p + unat fs"
      using lt p o unat_add_nowrap [of off fs] by simp
    have "unat off \<noteq> 0" using False by (simp add: unat_eq_zero)
    with b p have "unat off1 \<noteq> 0" by simp
    then have "off1 \<noteq> 0" by auto
    with b show ?thesis by simp
  qed
  with fs show ?thesis by blast
qed

lemma next_slice_abuts:
  assumes c1: "vdex_GetNextDexFileData fsOff cursor off = Some (Some p, off1)"
    and fs: "dex_fileSize fsOff cursor p = Some fs" and lt: "p + unat fs < 2 ^ 32"
    and c2: "vdex_GetNextDexFileData fsOff cursor off1 = Some (Some q, off2)"
  shows "unat off1 = p + unat fs \<and> q = p + unat fs"
proof -
  from call_end_nowrap [OF c1] fs lt have e: "unat off1 = p + unat fs" and nz: "off1 \<noteq> 0"
    by auto
  from later_call_Some [OF nz c2] have "q = unat off1" by simp
  with e show ?thesis by simp
qed

text \<open>
  The calls after the first one, along a chain of \<open>k\<close> DEX files that ends at \<open>e\<close>
  inside the DEX section: by induction on \<open>k\<close>, for any offset the chain starts at.
\<close>

lemma dex_slices_later:
  assumes "vdex_DexEnd cursor = Some dexEnd"
  shows "off \<noteq> 0 \<Longrightarrow> dex_chain fsOff cursor k (unat off) = Some e \<Longrightarrow> e \<le> dexEnd \<Longrightarrow> e < 2 ^ 32
     \<Longrightarrow> \<exists>sl. dex_slices fsOff cursor k off = Some sl \<and> length sl = k
            \<and> slices_abut fsOff cursor (unat off) sl
            \<and> unat (last (off # map snd sl)) = e"
proof (induction k arbitrary: off)
  case 0
  then show ?case by simp
next
  case (Suc k)
  from Suc.prems(2) obtain fs where fs: "dex_fileSize fsOff cursor (unat off) = Some fs"
    and ch: "dex_chain fsOff cursor k (unat off + unat fs) = Some e"
    by (auto split: option.splits if_splits)
  from ch have le: "unat off + unat fs \<le> e" by (rule dex_chain_mono)
  with Suc.prems have lt: "unat off + unat fs < 2 ^ 32" by simp
  then have u: "unat (off + fs) = unat off + unat fs" by (rule unat_add_nowrap)
  have "unat off \<noteq> 0" using Suc.prems(1) by (simp add: unat_eq_zero)
  with u have nz: "off + fs \<noteq> 0" by auto
  have call: "vdex_GetNextDexFileData fsOff cursor off = Some (Some (unat off), off + fs)"
    using Suc.prems(1) fs assms le Suc.prems(3) by (simp add: later_call_ok)
  from Suc.IH [OF nz] ch u Suc.prems(3,4)
  obtain sl where sl: "dex_slices fsOff cursor k (off + fs) = Some sl" "length sl = k"
    "slices_abut fsOff cursor (unat (off + fs)) sl" "unat (last ((off + fs) # map snd sl)) = e"
    by auto
  have "dex_slices fsOff cursor (Suc k) off = Some ((unat off, off + fs) # sl)"
    using call sl(1) by simp
  moreover have "slices_abut fsOff cursor (unat off) ((unat off, off + fs) # sl)"
    using fs u sl(3) by simp
  moreover have "unat (last (off # map snd ((unat off, off + fs) # sl))) = e"
    using sl(4) by simp
  ultimately show ?case using sl(2) by simp
qed

lemma snd_last_Cons: "snd (last (x # xs)) = last (snd x # map snd xs)"
  by (induction xs arbitrary: x) auto

lemma wf_vdex_slices:
  assumes wf: "wf_vdex fsOff cursor"
  shows "\<exists>n sl. hdr_numberOfDexFiles cursor = Some n
           \<and> dex_slices fsOff cursor (unat n) 0 = Some sl
           \<and> length sl = unat n
           \<and> vdex_DexBegin cursor = Some (24 + 4 * unat n)
           \<and> slices_abut fsOff cursor (24 + 4 * unat n) sl
           \<and> vdex_GetVerifierDepsDataOffset cursor = Some (snd (last sl))"
proof -
  from wf have "\<exists>n d. hdr_numberOfDexFiles cursor = Some n \<and> hdr_dexSize cursor = Some d
      \<and> 0 < unat n \<and> length cursor < 2 ^ 32
      \<and> 24 + 4 * unat n + unat d \<le> length cursor
      \<and> dex_chain fsOff cursor (unat n) (24 + 4 * unat n) = Some (24 + 4 * unat n + unat d)"
    by (auto simp: wf_vdex_def sizeof_vdexHeader_def split: option.splits)
  then obtain n d where n: "hdr_numberOfDexFiles cursor = Some n"
    and d: "hdr_dexSize cursor = Some d"
    and pos_n: "0 < unat n" and len: "length cursor < 2 ^ 32"
    and total: "24 + 4 * unat n + unat d \<le> length cursor"
    and chain: "dex_chain fsOff cursor (unat n) (24 + 4 * unat n) = Some (24 + 4 * unat n + unat d)"
    by blast
  define pos where "pos = 24 + 4 * unat n"
  define e where "e = pos + unat d"
  have e_lt: "e < 2 ^ 32"
    using total len by (simp add: e_def pos_def)
  from pos_n obtain k where k: "unat n = Suc k"
    by (cases "unat n") auto
  from chain k obtain fs where fs: "dex_fileSize fsOff cursor pos = Some fs"
    and fs_min: "fsOff + 4 \<le> unat fs"
    and ch: "dex_chain fsOff cursor k (pos + unat fs) = Some e"
    by (auto simp: pos_def e_def split: option.splits if_splits)
  from ch have le: "pos + unat fs \<le> e" by (rule dex_chain_mono)
  have "unat d \<noteq> 0"
    using le fs_min by (simp add: e_def)
  then have d_nz: "d \<noteq> 0" by auto
  have u4n: "unat (4 * n) = 4 * unat n"
    using e_lt by (simp add: unat_4_times e_def pos_def)
  have ubeg: "unat (24 + 4 * n) = pos"
    using e_lt unat_begin_nowrap [of n] by (simp add: e_def pos_def)
  have dexBegin: "vdex_DexBegin cursor = Some pos"
    using n u4n by (simp add: vdex_DexBegin_def vdex_GetSizeOfChecksumsSection_def
        sizeof_vdexHeader_def pos_def)
  have dexEnd: "vdex_DexEnd cursor = Some e"
    using d dexBegin by (simp add: vdex_DexEnd_def e_def)
  define off1 where "off1 = 24 + 4 * n + fs"
  have uoff1: "unat off1 = pos + unat fs"
    using le e_lt ubeg unat_add_nowrap [of "24 + 4 * n" fs] by (simp add: off1_def)
  then have "unat off1 \<noteq> 0" using fs_min by simp
  then have off1_nz: "off1 \<noteq> 0" by auto
  have call: "vdex_GetNextDexFileData fsOff cursor 0 = Some (Some pos, off1)"
    using d d_nz dexBegin n fs
    by (simp add: vdex_GetNextDexFileData_def vdex_hasDexSection_def
        vdex_GetSizeOfChecksumsSection_def sizeof_vdexHeader_def off1_def)
  from dex_slices_later [OF dexEnd off1_nz, of fsOff k e] ch uoff1 e_lt
  obtain sl where sl: "dex_slices fsOff cursor k off1 = Some sl" "length sl = k"
    "slices_abut fsOff cursor (unat off1) sl" "unat (last (off1 # map snd sl)) = e"
    by auto
  let ?all = "(pos, off1) # sl"
  have a: "dex_slices fsOff cursor (unat n) 0 = Some ?all"
    using call sl(1) k by simp
  have b: "length ?all = unat n"
    using sl(2) k by simp
  have c: "slices_abut fsOff cursor pos ?all"
    using fs uoff1 sl(3) by simp
  have "unat (24 + 4 * n + d) = e"
    using e_lt ubeg unat_add_nowrap [of "24 + 4 * n" d] by (simp add: e_def)
  moreover have "unat (snd (last ?all)) = e"
    unfolding snd_last_Cons snd_conv by (rule sl(4))
  ultimately have "24 + 4 * n + d = snd (last ?all)"
    by (simp only: word_unat_eq_iff)
  moreover have "vdex_GetVerifierDepsDataOffset cursor = Some (24 + 4 * n + d)"
    using n d by (simp add: vdex_GetVerifierDepsDataOffset_def vdex_DexBeginOffset_def
        vdex_GetSizeOfChecksumsSection_def sizeof_vdexHeader_def)
  ultimately have dd: "vdex_GetVerifierDepsDataOffset cursor = Some (snd (last ?all))"
    by simp
  from n a b c dd dexBegin show ?thesis
    unfolding pos_def by blast
qed

text \<open>
  C4, as the code has it. A successful call yields the slice that begins at the
  caller's offset (at \<open>vdex_DexBegin\<close> on the first call); a later call advances
  \<open>*offset\<close> by exactly the \<open>fileSize\<close> of the DEX header it yields, the first call sets
  it to \<open>vdex_DexBeginOffset\<close> plus that \<open>fileSize\<close>, both in the arithmetic of \<open>u4\<close>. So
  when the end of a yielded slice is below \<open>2 ^ 32\<close>, the offset left behind is that
  end and the slice the next successful call yields begins exactly there. For a
  well-formed container the \<open>numberOfDexFiles\<close> calls all succeed, the slices abut from
  \<open>vdex_DexBegin\<close> on, and the last one ends exactly at the offset of the verifier
  dependencies.
\<close>

theorem dex_slices_contiguous:
  "(vdex_GetNextDexFileData fsOff cursor off = Some (Some p, off1)
      \<and> dex_fileSize fsOff cursor p = Some fs
    \<longrightarrow> (if off = 0
         then vdex_DexBegin cursor = Some p
              \<and> (\<exists>b. vdex_DexBeginOffset cursor = Some b \<and> off1 = b + fs)
         else p = unat off \<and> off1 = off + fs))
   \<and> (vdex_GetNextDexFileData fsOff cursor off = Some (Some p, off1)
      \<and> dex_fileSize fsOff cursor p = Some fs \<and> p + unat fs < 2 ^ 32
      \<and> vdex_GetNextDexFileData fsOff cursor off1 = Some (Some q, off2)
    \<longrightarrow> unat off1 = p + unat fs \<and> q = p + unat fs)
   \<and> (wf_vdex fsOff cursor
    \<longrightarrow> (\<exists>n sl. hdr_numberOfDexFiles cursor = Some n
           \<and> dex_slices fsOff cursor (unat n) 0 = Some sl
           \<and> length sl = unat n
           \<and> vdex_DexBegin cursor = Some (24 + 4 * unat n)
           \<and> slices_abut fsOff cursor (24 + 4 * unat n) sl
           \<and> vdex_GetVerifierDepsDataOffset cursor = Some (snd (last sl))))"
  using call_offsets [of fsOff cursor off p off1 fs] next_slice_abuts wf_vdex_slices
  by (intro conjI impI) blast+

text \<open>
  In \<open>good_vdex\<close> the two slices are bytes 32 to 143 and 144 to 255, and the verifier
  dependencies begin at byte 256.
\<close>

theorem dex_slices_contiguous_witness:
  "wf_vdex 32 good_vdex
   \<and> vdex_GetNextDexFileData 32 good_vdex 0 = Some (Some 32, 144)
   \<and> dex_fileSize 32 good_vdex 32 = Some 112
   \<and> vdex_GetNextDexFileData 32 good_vdex 144 = Some (Some 144, 256)
   \<and> dex_slices 32 good_vdex 2 0 = Some [(32, 144), (144, 256)]
   \<and> vdex_GetVerifierDepsDataOffset good_vdex = Some 256"
proof -
  have c1: "vdex_GetNextDexFileData 32 good_vdex 0 = Some (Some 32, 144)"
    by (simp add: good_vdex_def buf_defs rd_defs it_defs)
  have fs: "dex_fileSize 32 good_vdex 32 = Some 112"
    by (simp add: good_vdex_def buf_defs rd_defs)
  have c2: "vdex_GetNextDexFileData 32 good_vdex 144 = Some (Some 144, 256)"
    by (simp add: good_vdex_def buf_defs rd_defs it_defs)
  have n: "hdr_numberOfDexFiles good_vdex = Some 2"
    by (simp add: good_vdex_def buf_defs rd_defs)
  have v: "vdex_isValidVdex good_vdex = Some True"
    by (simp add: good_vdex_def buf_defs vdex_isValidVdex_eq)
  have hs: "hdr_dexSize good_vdex = Some 224" "hdr_verifierDepsSize good_vdex = Some 0"
    "hdr_quickeningInfoSize good_vdex = Some 0"
    by (simp_all add: good_vdex_def buf_defs rd_defs)
  have len: "length good_vdex = 256"
    by (simp add: good_vdex_def buf_defs)
  have ch: "dex_chain 32 good_vdex 2 32 = Some 256"
    by (simp add: good_vdex_def buf_defs rd_defs dex_chain_numeral)
  have wf: "wf_vdex 32 good_vdex"
    by (simp add: wf_vdex_def v n hs len ch sizeof_vdexHeader_def)
  have sl: "dex_slices 32 good_vdex 2 0 = Some [(32, 144), (144, 256)]"
    by (simp add: c1 c2 dex_slices_numeral)
  from dex_slices_contiguous [of 32 good_vdex 0 32 144 112 144 256] c1 fs c2 wf n sl
  show ?thesis by auto
qed

text \<open>
  The claim without the bound fails on \<open>wrap_vdex\<close>, where every bounds check passes.
  The second call (offset 148) yields the slice at byte 148, whose \<open>fileSize\<close> is
  \<open>0xFFFFFF6C\<close>: it ends at \<open>2 ^ 32\<close>, below \<open>vdex_DexEnd\<close>, and the offset wraps to 0.
  The third call therefore takes the branch of the first call and yields the slice at
  byte 36 once more, not a slice that begins where the second one ended.
\<close>

theorem dex_slices_wrap_counterexample:
  "vdex_isValidVdex wrap_vdex = Some True
   \<and> vdex_DexEnd wrap_vdex = Some 4294967331
   \<and> vdex_GetNextDexFileData 32 wrap_vdex 0 = Some (Some 36, 148)
   \<and> dex_fileSize 32 wrap_vdex 148 = Some 0xFFFFFF6C
   \<and> vdex_GetNextDexFileData 32 wrap_vdex 148 = Some (Some 148, 0)
   \<and> dex_slices 32 wrap_vdex 3 0 = Some [(36, 148), (148, 0), (36, 148)]
   \<and> (36 :: nat) \<noteq> 148 + unat (0xFFFFFF6C :: u4)"
  by (simp add: wrap_vdex_def buf_defs rd_defs it_defs vdex_isValidVdex_eq dex_slices_numeral)

section \<open>Rejecting invalid headers\<close>

lemma invalid_skipped:
  assumes "utils_mapFileToRead e f = Some cursor"
    and "\<not> length cursor < sizeof_vdexHeader + sz" and "vdex_isValidVdex cursor = Some False"
  shows "process_file e a sz st f = Some (add_log st [(l_WARN, ''Invalid Vdex header - skipping'')])"
  using assms by (simp add: process_file_def)

lemma invalid_not_updated:
  assumes "utils_mapFileToRead e f = Some cursor" and "vdex_isValidVdex cursor = Some False"
  shows "vdex_updateChecksums e f nCsums checksums a =
           Some \<lparr>upd_ret = False, upd_buf = Some cursor, upd_written = None,
                 upd_log = [(l_WARN, ''is an invalid Vdex file'')]\<rparr>"
  using assms by (simp add: vdex_updateChecksums_def)

lemma valid_total:
  assumes "8 \<le> length cursor"
  shows "vdex_isValidVdex cursor =
     Some (take 4 cursor = [0x76, 0x64, 0x65, 0x78]
           \<and> (take 4 (drop 4 cursor) = [0x30, 0x30, 0x36, 0x00]
              \<or> take 4 (drop 4 cursor) = [0x30, 0x31, 0x30, 0x00]))"
  using assms by (simp add: vdex_isValidVdex_eq)

text \<open>
  C2. \<open>vdex_isValidVdex\<close> returns true exactly when the first four bytes are \<open>vdex\<close> and
  the next four are \<open>006\0\<close> or \<open>010\0\<close>; on every buffer of at least 8 bytes it
  returns that condition as its flag. A file whose magic or version is anything else is
  dropped at that point: the loop of \<open>main\<close> only logs a warning for it and leaves the
  pointers and counters alone, and \<open>vdex_updateChecksums\<close> returns false with the
  mapping untouched and nothing handed to the writer.
\<close>

theorem vdex_isValidVdex_magic_version:
  "(vdex_isValidVdex cursor = Some True) =
     (take 4 cursor = [0x76, 0x64, 0x65, 0x78]
      \<and> (take 4 (drop 4 cursor) = [0x30, 0x30, 0x36, 0x00]
         \<or> take 4 (drop 4 cursor) = [0x30, 0x31, 0x30, 0x00]))
   \<and> (8 \<le> length cursor \<longrightarrow>
        vdex_isValidVdex cursor =
          Some (take 4 cursor = [0x76, 0x64, 0x65, 0x78]
                \<and> (take 4 (drop 4 cursor) = [0x30, 0x30, 0x36, 0x00]
                   \<or> take 4 (drop 4 cursor) = [0x30, 0x31, 0x30, 0x00])))
   \<and> (utils_mapFileToRead e f = Some cursor \<and> \<not> length cursor < sizeof_vdexHeader + sz
        \<and> vdex_isValidVdex cursor = Some False \<longrightarrow>
        process_file e a sz st f
          = Some (add_log st [(l_WARN, ''Invalid Vdex header - skipping'')]))
   \<and> (utils_mapFileToRead e f = Some cursor \<and> vdex_isValidVdex cursor = Some False \<longrightarrow>
        vdex_updateChecksums e f nCsums checksums a =
          Some \<lparr>upd_ret = False, upd_buf = Some cursor, upd_written = None,
                upd_log = [(l_WARN, ''is an invalid Vdex file'')]\<rparr>)"
  using valid_iff [of cursor] valid_total [of cursor] invalid_skipped [of e f cursor sz a st]
    invalid_not_updated [of e f cursor nCsums checksums a]
  by (intro conjI impI) simp_all

text \<open>\<open>good_vdex\<close> is accepted; \<open>bad_version_vdex\<close> (version \<open>011\<close>) is rejected.\<close>

theorem vdex_isValidVdex_magic_version_witness:
  "vdex_isValidVdex good_vdex = Some True
   \<and> 8 \<le> length bad_version_vdex
   \<and> vdex_isValidVdex bad_version_vdex = Some False
   \<and> process_file (sample_env (Some bad_version_vdex) 1) sample_args 112 init_state ''a.vdex''
       = Some (add_log init_state [(l_WARN, ''Invalid Vdex header - skipping'')])
   \<and> vdex_updateChecksums (sample_env (Some bad_version_vdex) 1) ''a.vdex'' 1 [7] sample_args
       = Some \<lparr>upd_ret = False, upd_buf = Some bad_version_vdex, upd_written = None,
               upd_log = [(l_WARN, ''is an invalid Vdex file'')]\<rparr>"
proof -
  have len: "length bad_version_vdex = 140"
    by (simp add: bad_version_vdex_def buf_defs)
  have m: "utils_mapFileToRead (sample_env (Some bad_version_vdex) 1) ''a.vdex'' = Some bad_version_vdex"
    by (simp add: sample_env_def)
  have g: "take 4 good_vdex = [0x76, 0x64, 0x65, 0x78]" "take 4 (drop 4 good_vdex) = [0x30, 0x31, 0x30, 0x00]"
    by (simp_all add: good_vdex_def buf_defs)
  have b: "take 4 bad_version_vdex = [0x76, 0x64, 0x65, 0x78]"
    "take 4 (drop 4 bad_version_vdex) = [0x30, 0x31, 0x31, 0x00]"
    by (simp_all add: bad_version_vdex_def buf_defs)
  have gv: "vdex_isValidVdex good_vdex = Some True"
    using vdex_isValidVdex_magic_version [of good_vdex] g by simp
  have bv: "vdex_isValidVdex bad_version_vdex = Some False"
    using vdex_isValidVdex_magic_version [of bad_version_vdex] len b by simp
  from vdex_isValidVdex_magic_version
      [of bad_version_vdex "sample_env (Some bad_version_vdex) 1" "''a.vdex''" 112 sample_args
        init_state 1 "[7]"]
    m bv len gv
  show ?thesis by (simp add: sizeof_vdexHeader_def)
qed

section \<open>Selecting the backend\<close>

lemma strtol_006: "strtol (0x30 # 0x30 # 0x36 # 0x00 # r) = Some 6"
  by (simp add: strtol_def isspace_def isdigit_def LONG_MAX_def)

lemma strtol_010: "strtol (0x30 # 0x31 # 0x30 # 0x00 # r) = Some 10"
  by (simp add: strtol_def isspace_def isdigit_def LONG_MAX_def)

lemma strtol_valid:
  assumes "vdex_isValidVdex cursor = Some True"
  shows "strtol (drop 4 cursor)
           = Some (if take 4 (drop 4 cursor) = [0x30, 0x30, 0x36, 0x00] then 6 else 10)"
proof -
  have split: "drop 4 cursor = take 4 (drop 4 cursor) @ drop 8 cursor"
    using append_take_drop_id [of 4 "drop 4 cursor"] by simp
  from assms consider "take 4 (drop 4 cursor) = [0x30, 0x30, 0x36, 0x00]"
    | "take 4 (drop 4 cursor) = [0x30, 0x31, 0x30, 0x00]"
    by (auto simp: valid_iff)
  then show ?thesis
  proof cases
    case 1
    with split have "drop 4 cursor = [0x30, 0x30, 0x36, 0x00] @ drop 8 cursor" by simp
    with 1 show ?thesis by (simp add: strtol_006)
  next
    case 2
    with split have "drop 4 cursor = [0x30, 0x31, 0x30, 0x00] @ drop 8 cursor" by simp
    with 2 show ?thesis by (simp add: strtol_010)
  qed
qed

lemma selectVdexBackend_eq:
  "selectVdexBackend p cursor =
     (case strtol (drop 4 cursor) of
        None \<Rightarrow> None
      | Some v \<Rightarrow>
          Some (if v = 6 then
                  (True, \<lparr>initDepsInfoPtr = Some vdex_initDepsInfo_v6,
                          destroyDepsInfoPtr = Some vdex_destroyDepsInfo_v6,
                          dumpDepsInfoPtr = Some vdex_dumpDepsInfo_v6,
                          processPtr = Some vdex_process_v6\<rparr>, [])
                else if v = 10 then
                  (True, \<lparr>initDepsInfoPtr = Some vdex_initDepsInfo_v10,
                          destroyDepsInfoPtr = Some vdex_destroyDepsInfo_v10,
                          dumpDepsInfoPtr = Some vdex_dumpDepsInfo_v10,
                          processPtr = Some vdex_process_v10\<rparr>, [])
                else (False, p, [(l_ERROR, ''Invalid Vdex version'')])))"
  by (cases p) (simp add: selectVdexBackend_def vdex_backendInit_def split: option.splits)











lemma dump_checksums_ok:
  "list_all (\<lambda>i. sizeof_vdexHeader + 4 * unat i + 4 \<le> length cursor) idxs
   \<Longrightarrow> dump_checksums cursor idxs = Some ()"
proof (induction idxs)
  case Nil
  then show ?case by simp
next
  case (Cons i idxs)
  then show ?case
    using read_u4_Some [of "sizeof_vdexHeader + 4 * unat i" cursor]
    by (auto simp: vdex_GetLocationChecksum_def)
qed

lemma vdex_dumpHeaderInfo_ok:
  assumes n: "hdr_numberOfDexFiles cursor = Some n"
    and len: "24 + 4 * unat n \<le> length cursor"
  shows "vdex_dumpHeaderInfo cursor = Some ()"
proof -
  have "list_all (\<lambda>i. sizeof_vdexHeader + 4 * unat i + 4 \<le> length cursor)
          (map of_nat [0..<unat n] :: u4 list)"
  proof -
    have "sizeof_vdexHeader + 4 * unat (of_nat j :: u4) + 4 \<le> length cursor" if "j < unat n" for j
    proof -
      have "j < 2 ^ 32"
        using that unsigned_less [of n, where ?'a = nat] by simp
      then have "unat (of_nat j :: u4) = j"
        by (simp add: unat_of_nat)
      with that len show ?thesis
        by (simp add: sizeof_vdexHeader_def)
    qed
    then show ?thesis
      by (auto simp: list_all_iff)
  qed
  then have dc: "dump_checksums cursor (map of_nat [0..<unat n]) = Some ()"
    by (rule dump_checksums_ok)
  from len have l24: "24 \<le> length cursor" by simp
  obtain d v q where h: "hdr_dexSize cursor = Some d" "hdr_verifierDepsSize cursor = Some v"
    "hdr_quickeningInfoSize cursor = Some q"
    using l24 read_u4_Some [of 12 cursor] read_u4_Some [of 16 cursor] read_u4_Some [of 20 cursor]
    by (auto simp: hdr_dexSize_def hdr_verifierDepsSize_def hdr_quickeningInfoSize_def)
  have mv: "hdr_magic cursor = Some (take 4 cursor)" "hdr_version cursor = Some (take 4 (drop 4 cursor))"
    using l24 by (simp_all add: hdr_magic_def hdr_version_def read_bytes_def)
  show ?thesis
    using n h mv dc
    by (simp add: vdex_dumpHeaderInfo_def vdex_GetVerifierDepsDataSize_def
        vdex_GetVerifierDepsDataOffset_def vdex_GetQuickeningInfoSize_def
        vdex_GetQuickeningInfoOffset_def vdex_DexBeginOffset_def
        vdex_GetSizeOfChecksumsSection_def)
qed

lemma dump_good: "vdex_dumpHeaderInfo good_vdex = Some ()"
proof -
  have "hdr_numberOfDexFiles good_vdex = Some 2"
    by (simp add: good_vdex_def buf_defs rd_defs)
  moreover have "length good_vdex = 256"
    by (simp add: good_vdex_def buf_defs)
  ultimately show ?thesis
    using vdex_dumpHeaderInfo_ok [of good_vdex 2] by simp
qed


section \<open>The checksum rewriter\<close>

lemma set_two_checksums:
  "set_checksums_loop buf 0 2 [a, b] =
     (if 32 \<le> length buf
      then Some (take 24 buf @ bytes_of_u4 a @ bytes_of_u4 b @ drop 32 buf) else None)"
proof -
  have step2: "set_checksums_loop buf' 2 2 [a, b] = Some buf'" for buf'
    by (subst set_checksums_loop.simps) simp
  have step1: "set_checksums_loop buf' 1 2 [a, b] =
      (case vdex_SetLocationChecksum buf' 1 b of None \<Rightarrow> None | Some buf'' \<Rightarrow> Some buf'')" for buf'
    by (subst set_checksums_loop.simps) (simp add: step2 split: option.splits)
  have step0: "set_checksums_loop buf 0 2 [a, b] =
      (case vdex_SetLocationChecksum buf 0 a of
         None \<Rightarrow> None
       | Some buf' \<Rightarrow>
           (case vdex_SetLocationChecksum buf' 1 b of None \<Rightarrow> None | Some buf'' \<Rightarrow> Some buf''))"
    by (subst set_checksums_loop.simps) (simp add: step1 split: option.splits)
  show ?thesis
    unfolding step0
    by (auto simp: vdex_SetLocationChecksum_def write_u4_def sizeof_vdexHeader_def bytes_of_u4_def)
qed

lemma updateChecksums_success:
  assumes "vdex_updateChecksums e f nCsums checksums a = Some r" and "upd_ret r"
    and "utils_mapFileToRead e f = Some buf" and "hdr_numberOfDexFiles buf = Some n"
  shows "vdex_isValidVdex buf = Some True \<and> nCsums = n
         \<and> (\<exists>out. set_checksums_loop buf 0 n checksums = Some out
                \<and> upd_buf r = Some out \<and> upd_written r = Some out)"
  using assms
  by (auto simp: vdex_updateChecksums_def split: option.splits bool.splits if_splits)

text \<open>
  C6. On a container with \<open>numberOfDexFiles = 2\<close>, a call of \<open>vdex_updateChecksums\<close>
  with the checksums \<open>0x11111111\<close> and 22 that returns true has handed to the writer a
  buffer of the same length that holds the bytes \<open>11 11 11 11 16 00 00 00\<close> at offsets
  24 to 31 and agrees with the mapped file at every other offset; checksum \<open>i\<close> is
  stored little-endian at \<open>24 + 4 * i\<close>. (A call that returns true implies that the
  container is valid and that two checksums were passed.)
\<close>

theorem updateChecksums_two:
  assumes "utils_mapFileToRead e f = Some buf" and "hdr_numberOfDexFiles buf = Some 2"
    and "vdex_updateChecksums e f nCsums [0x11111111, 22] a = Some r" and "upd_ret r"
  shows "\<exists>out. upd_written r = Some out \<and> upd_buf r = Some out
           \<and> out = take 24 buf @ [0x11, 0x11, 0x11, 0x11, 0x16, 0x00, 0x00, 0x00] @ drop 32 buf
           \<and> length out = length buf
           \<and> take 8 (drop 24 out) = [0x11, 0x11, 0x11, 0x11, 0x16, 0x00, 0x00, 0x00]
           \<and> (\<forall>i < length buf. i < 24 \<or> 32 \<le> i \<longrightarrow> out ! i = buf ! i)
           \<and> vdex_isValidVdex buf = Some True"
proof -
  from updateChecksums_success [OF assms(3,4,1,2)]
  obtain out where v: "vdex_isValidVdex buf = Some True"
    and lp: "set_checksums_loop buf 0 2 [0x11111111, 22] = Some out"
    and o: "upd_buf r = Some out" "upd_written r = Some out"
    by blast
  from lp have len: "32 \<le> length buf"
    by (simp add: set_two_checksums split: if_splits)
  have bytes: "bytes_of_u4 0x11111111 = [0x11, 0x11, 0x11, 0x11]"
    "bytes_of_u4 22 = [0x16, 0x00, 0x00, 0x00]"
    by (simp_all add: bytes_of_u4_def)
  from lp len have out: "out = take 24 buf @ [0x11, 0x11, 0x11, 0x11, 0x16, 0x00, 0x00, 0x00] @ drop 32 buf"
    by (simp add: set_two_checksums bytes)
  have l: "length out = length buf"
    using len by (simp add: out)
  have t: "take 8 (drop 24 out) = [0x11, 0x11, 0x11, 0x11, 0x16, 0x00, 0x00, 0x00]"
    using len by (simp add: out)
  have nth: "out ! i = buf ! i" if "i < length buf" and "i < 24 \<or> 32 \<le> i" for i
  proof (cases "i < 24")
    case True
    then show ?thesis using len by (simp add: out nth_append)
  next
    case False
    with that have "32 \<le> i" by simp
    then show ?thesis using len that(1) by (simp add: out nth_append)
  qed
  from o out l t nth v show ?thesis by blast
qed

text \<open>
  On \<open>good_vdex\<close>, whose checksums are \<open>0xA\<close> and \<open>0xB\<close>, the call succeeds.
\<close>

theorem updateChecksums_two_witness:
  "vdex_updateChecksums (sample_env (Some good_vdex) 2) ''a.vdex'' 2 [0x11111111, 22] sample_args
     = Some \<lparr>upd_ret = True,
             upd_buf = Some (take 24 good_vdex @ [0x11, 0x11, 0x11, 0x11, 0x16, 0x00, 0x00, 0x00]
                              @ drop 32 good_vdex),
             upd_written = Some (take 24 good_vdex @ [0x11, 0x11, 0x11, 0x11, 0x16, 0x00, 0x00, 0x00]
                              @ drop 32 good_vdex),
             upd_log = []\<rparr>
   \<and> take 8 (drop 24 good_vdex) = [0x0A, 0x00, 0x00, 0x00, 0x0B, 0x00, 0x00, 0x00]"
proof -
  let ?e = "sample_env (Some good_vdex) 2"
  have m: "utils_mapFileToRead ?e ''a.vdex'' = Some good_vdex"
    by (simp add: sample_env_def)
  have n: "hdr_numberOfDexFiles good_vdex = Some 2"
    by (simp add: good_vdex_def buf_defs rd_defs)
  have v: "vdex_isValidVdex good_vdex = Some True"
    by (simp add: good_vdex_def buf_defs vdex_isValidVdex_eq)
  have len: "length good_vdex = 256"
    by (simp add: good_vdex_def buf_defs)
  obtain r where r: "vdex_updateChecksums ?e ''a.vdex'' 2 [0x11111111, 22] sample_args = Some r"
    and ret: "upd_ret r" and lg: "upd_log r = []"
    using v n len by (simp add: vdex_updateChecksums_def set_two_checksums sample_env_def)
  from updateChecksums_two [OF m n r ret] lg
  have "r = \<lparr>upd_ret = True,
             upd_buf = Some (take 24 good_vdex @ [0x11, 0x11, 0x11, 0x11, 0x16, 0x00, 0x00, 0x00]
                              @ drop 32 good_vdex),
             upd_written = Some (take 24 good_vdex @ [0x11, 0x11, 0x11, 0x11, 0x16, 0x00, 0x00, 0x00]
                              @ drop 32 good_vdex),
             upd_log = []\<rparr>"
    using ret by (cases r) auto
  moreover have "take 8 (drop 24 good_vdex) = [0x0A, 0x00, 0x00, 0x00, 0x0B, 0x00, 0x00, 0x00]"
    by (simp add: good_vdex_def buf_defs)
  ultimately show ?thesis using r by simp
qed

lemma hdr_n_length: "hdr_numberOfDexFiles buf = Some n \<Longrightarrow> 12 \<le> length buf"
  by (simp add: hdr_numberOfDexFiles_def read_u4_def read_bytes_def split: if_splits)

lemma count_differs:
  assumes "0 \<le> sint (nCsums :: c_int)" and "sint nCsums \<noteq> uint (n :: u4)"
  shows "nCsums \<noteq> n"
proof
  assume "nCsums = n"
  with assms have "0 \<le> sint n" "sint n \<noteq> uint n" by simp_all
  moreover have "sint n = uint n"
  proof -
    have "sint n < 2 ^ 32"
      using sint_lt [of n] by simp
    with \<open>0 \<le> sint n\<close> have "take_bit 32 (sint n) = sint n"
      by (simp add: take_bit_int_eq_self)
    then show ?thesis
      by (simp add: uint_sint)
  qed
  ultimately show False by simp
qed

text \<open>
  C7. When the number of checksums loaded (a count, so not negative) differs from
  \<open>numberOfDexFiles\<close>, \<open>vdex_updateChecksums\<close> returns false, the mapping is as it was,
  nothing is handed to the writer, and nothing is logged at the fatal level: the
  mismatch is reported as an error and the function returns to \<open>main\<close>, which logs a
  second error and leaves through its ordinary exit with the status \<open>EXIT_FAILURE\<close>.
\<close>

theorem updateChecksums_count_mismatch:
  assumes "utils_mapFileToRead e f = Some buf" and "hdr_numberOfDexFiles buf = Some n"
    and "0 \<le> sint nCsums" and "sint nCsums \<noteq> uint n"
  shows "\<exists>r. vdex_updateChecksums e f nCsums checksums a = Some r
           \<and> \<not> upd_ret r \<and> upd_buf r = Some buf \<and> upd_written r = None
           \<and> l_FATAL \<notin> fst ` set (upd_log r)
           \<and> (newCrcFile a = Some crc
                \<and> utils_processFileWithCsums e crc = (Some checksums, nCsums)
                \<and> 1 \<le> sint nCsums \<longrightarrow>
                main_run e a sz [f] =
                  Some (EXIT_FAILURE,
                        upd_log r @ [(l_ERROR, ''Failed to update location checksums'')]))"
proof -
  from assms(2) have "8 \<le> length buf"
    using hdr_n_length by fastforce
  then have "vdex_isValidVdex buf \<noteq> None"
    by (auto simp: vdex_isValidVdex_eq)
  then obtain ok where ok: "vdex_isValidVdex buf = Some ok"
    by blast
  have ne: "nCsums \<noteq> n"
    using assms(3,4) by (rule count_differs)
  define r where "r =
     (if ok then \<lparr>upd_ret = False, upd_buf = Some buf, upd_written = None,
                   upd_log = [(l_ERROR, ''checksums loaded from file, although Vdex has Dex entries'')]\<rparr>
      else \<lparr>upd_ret = False, upd_buf = Some buf, upd_written = None,
             upd_log = [(l_WARN, ''is an invalid Vdex file'')]\<rparr>)"
  have call: "vdex_updateChecksums e f nCsums checksums a = Some r"
    using assms(1,2) ok ne by (simp add: vdex_updateChecksums_def r_def)
  have props: "\<not> upd_ret r" "upd_buf r = Some buf" "upd_written r = None"
    "l_FATAL \<notin> fst ` set (upd_log r)"
    by (simp_all add: r_def)
  have "main_run e a sz [f] =
      Some (EXIT_FAILURE, upd_log r @ [(l_ERROR, ''Failed to update location checksums'')])"
    if "newCrcFile a = Some crc" and "utils_processFileWithCsums e crc = (Some checksums, nCsums)"
      and "1 \<le> sint nCsums"
    using that call props(1) by (simp add: main_run_def)
  with call props show ?thesis by blast
qed

text \<open>Three checksums for the two DEX files of \<open>good_vdex\<close>.\<close>

theorem updateChecksums_count_mismatch_witness:
  "hdr_numberOfDexFiles good_vdex = Some 2
   \<and> vdex_updateChecksums (crc_env good_vdex [7, 8, 9]) ''a.vdex'' 3 [7, 8, 9]
        (sample_args\<lparr>newCrcFile := Some ''crc.txt''\<rparr>)
      = Some \<lparr>upd_ret = False, upd_buf = Some good_vdex, upd_written = None,
              upd_log = [(l_ERROR, ''checksums loaded from file, although Vdex has Dex entries'')]\<rparr>
   \<and> main_run (crc_env good_vdex [7, 8, 9]) (sample_args\<lparr>newCrcFile := Some ''crc.txt''\<rparr>) 112
        [''a.vdex'']
      = Some (EXIT_FAILURE,
              [(l_ERROR, ''checksums loaded from file, although Vdex has Dex entries''),
               (l_ERROR, ''Failed to update location checksums'')])"
proof -
  let ?e = "crc_env good_vdex [7, 8, 9]"
  let ?a = "sample_args\<lparr>newCrcFile := Some ''crc.txt''\<rparr>"
  have m: "utils_mapFileToRead ?e ''a.vdex'' = Some good_vdex"
    by (simp add: crc_env_def)
  have n: "hdr_numberOfDexFiles good_vdex = Some 2"
    by (simp add: good_vdex_def buf_defs rd_defs)
  have v: "vdex_isValidVdex good_vdex = Some True"
    by (simp add: good_vdex_def buf_defs vdex_isValidVdex_eq)
  have s: "0 \<le> sint (3 :: c_int)" "sint (3 :: c_int) \<noteq> uint (2 :: u4)" "1 \<le> sint (3 :: c_int)"
    by simp_all
  have c: "newCrcFile ?a = Some ''crc.txt''"
    "utils_processFileWithCsums ?e ''crc.txt'' = (Some [7, 8, 9], 3)"
    by (simp_all add: crc_env_def)
  have u: "vdex_updateChecksums ?e ''a.vdex'' 3 [7, 8, 9] ?a
      = Some \<lparr>upd_ret = False, upd_buf = Some good_vdex, upd_written = None,
              upd_log = [(l_ERROR, ''checksums loaded from file, although Vdex has Dex entries'')]\<rparr>"
    using v n by (simp add: vdex_updateChecksums_def crc_env_def)
  from updateChecksums_count_mismatch [OF m n s(1,2), of "[7, 8, 9]" ?a "''crc.txt''" 112] c s(3) u n
  show ?thesis by auto
qed

section \<open>The loop over the files\<close>

lemma selectVdexBackend_True_ptrs:
  assumes "selectVdexBackend p buf = Some (True, p', lg)"
  shows "initDepsInfoPtr p' \<noteq> None \<and> processPtr p' \<noteq> None \<and> lg = []"
  using assms
  by (auto simp: selectVdexBackend_def vdex_backendInit_def split: option.splits if_splits)

lemma process_file_cases:
  assumes "process_file e a sz st f = Some st'"
  shows "\<exists>lg. logs st' = logs st @ lg
           \<and> (processedVdexCnt st' = processedVdexCnt st + 1
              \<or> (st' = add_log (st\<lparr>ptrs := ptrs st'\<rparr>) lg
                  \<and> lg \<noteq> [] \<and> (fst (last lg) = l_ERROR \<or> fst (last lg) = l_WARN)))"
  using assms
  by (auto simp: process_file_def add_log_def
      split: option.splits bool.splits if_splits prod.splits)

lemma map_failed:
  "utils_mapFileToRead e f = None \<Longrightarrow>
   process_file e a sz st f = Some (add_log st [(l_ERROR, ''Open & map failed - skipping'')])"
  by (simp add: process_file_def)

lemma too_short:
  "utils_mapFileToRead e f = Some buf \<Longrightarrow> length buf < sizeof_vdexHeader + sz \<Longrightarrow>
   process_file e a sz st f = Some (add_log st [(l_WARN, ''Invalid input file - skipping'')])"
  by (simp add: process_file_def)

lemma invalid_header:
  "utils_mapFileToRead e f = Some buf \<Longrightarrow> \<not> length buf < sizeof_vdexHeader + sz \<Longrightarrow>
   vdex_isValidVdex buf = Some False \<Longrightarrow>
   process_file e a sz st f = Some (add_log st [(l_WARN, ''Invalid Vdex header - skipping'')])"
  by (simp add: process_file_def)

lemma process_failed:
  assumes "utils_mapFileToRead e f = Some buf" and "\<not> length buf < sizeof_vdexHeader + sz"
    and "vdex_isValidVdex buf = Some True" and "vdex_dumpHeaderInfo buf = Some ()"
    and "selectVdexBackend (ptrs st) buf = Some (True, p', lg)"
    and "vdex_process e p' f buf a = Some (- 1)"
  shows "\<exists>lg'. process_file e a sz st f =
           Some (add_log (st\<lparr>ptrs := p'\<rparr>)
                   (lg' @ [(l_ERROR, ''Failed to process Dex files - skipping'')]))"
proof -
  from selectVdexBackend_True_ptrs [OF assms(5)]
  obtain fn where "initDepsInfoPtr p' = Some fn" by auto
  then have "vdex_initDepsInfo e p' buf \<noteq> None"
    by (simp add: vdex_initDepsInfo_def)
  then obtain b where b: "vdex_initDepsInfo e p' buf = Some b" by blast
  show ?thesis
  proof (cases "dumpDeps a")
    case True
    with assms b have "process_file e a sz st f =
           Some (add_log (st\<lparr>ptrs := p'\<rparr>)
                   ((lg @ (if b then [] else [(l_WARN, ''Empty verified dependency data'')]))
                    @ [(l_ERROR, ''Failed to process Dex files - skipping'')]))"
      by (simp add: process_file_def)
    then show ?thesis by blast
  next
    case False
    with assms have "process_file e a sz st f =
           Some (add_log (st\<lparr>ptrs := p'\<rparr>)
                   (lg @ [(l_ERROR, ''Failed to process Dex files - skipping'')]))"
      by (simp add: process_file_def)
    then show ?thesis by blast
  qed
qed

lemma main_run_loop_exit:
  "newCrcFile a = None \<Longrightarrow> main_run e a sz files = Some (code, lg) \<Longrightarrow> code = EXIT_SUCCESS"
  by (auto simp: main_run_def split: option.splits)

text \<open>
  C8, as the code has it. Whatever happens to a file (short of a memory fault), the
  loop goes on with the remaining files; the file is either counted as processed or
  only the log grew, by entries that end with an error or a warning (the pointers may
  have been bound by then). A file that cannot be mapped, is too short, has an invalid
  header, or whose processing returns -1 is skipped in this way. When the loop has
  run over all files the exit status is \<open>EXIT_SUCCESS\<close>, whether or not any file was
  valid.
\<close>

theorem main_loop_per_file:
  "(process_file e a sz st f = Some st' \<longrightarrow>
      main_loop e a sz st (f # fs) = main_loop e a sz st' fs
      \<and> (\<exists>lg. logs st' = logs st @ lg
            \<and> (processedVdexCnt st' = processedVdexCnt st + 1
               \<or> (st' = add_log (st\<lparr>ptrs := ptrs st'\<rparr>) lg
                   \<and> lg \<noteq> [] \<and> (fst (last lg) = l_ERROR \<or> fst (last lg) = l_WARN)))))
   \<and> (utils_mapFileToRead e f = None \<longrightarrow>
        process_file e a sz st f = Some (add_log st [(l_ERROR, ''Open & map failed - skipping'')]))
   \<and> (utils_mapFileToRead e f = Some buf \<and> length buf < sizeof_vdexHeader + sz \<longrightarrow>
        process_file e a sz st f = Some (add_log st [(l_WARN, ''Invalid input file - skipping'')]))
   \<and> (utils_mapFileToRead e f = Some buf \<and> \<not> length buf < sizeof_vdexHeader + sz
        \<and> vdex_isValidVdex buf = Some False \<longrightarrow>
        process_file e a sz st f = Some (add_log st [(l_WARN, ''Invalid Vdex header - skipping'')]))
   \<and> (utils_mapFileToRead e f = Some buf \<and> \<not> length buf < sizeof_vdexHeader + sz
        \<and> vdex_isValidVdex buf = Some True \<and> vdex_dumpHeaderInfo buf = Some ()
        \<and> selectVdexBackend (ptrs st) buf = Some (True, q, lgs)
        \<and> vdex_process e q f buf a = Some (- 1) \<longrightarrow>
        (\<exists>lg'. process_file e a sz st f =
           Some (add_log (st\<lparr>ptrs := q\<rparr>)
                   (lg' @ [(l_ERROR, ''Failed to process Dex files - skipping'')]))))
   \<and> (newCrcFile a = None \<and> main_run e a sz files = Some (code, lgf) \<longrightarrow> code = EXIT_SUCCESS)"
proof (intro conjI impI)
  assume p: "process_file e a sz st f = Some st'"
  then show "main_loop e a sz st (f # fs) = main_loop e a sz st' fs" by simp
  from p show "\<exists>lg. logs st' = logs st @ lg
            \<and> (processedVdexCnt st' = processedVdexCnt st + 1
               \<or> (st' = add_log (st\<lparr>ptrs := ptrs st'\<rparr>) lg
                   \<and> lg \<noteq> [] \<and> (fst (last lg) = l_ERROR \<or> fst (last lg) = l_WARN)))"
    by (rule process_file_cases)
next
  assume "utils_mapFileToRead e f = None"
  then show "process_file e a sz st f = Some (add_log st [(l_ERROR, ''Open & map failed - skipping'')])"
    by (rule map_failed)
next
  assume "utils_mapFileToRead e f = Some buf \<and> length buf < sizeof_vdexHeader + sz"
  then show "process_file e a sz st f = Some (add_log st [(l_WARN, ''Invalid input file - skipping'')])"
    by (simp add: too_short)
next
  assume "utils_mapFileToRead e f = Some buf \<and> \<not> length buf < sizeof_vdexHeader + sz
        \<and> vdex_isValidVdex buf = Some False"
  then show "process_file e a sz st f = Some (add_log st [(l_WARN, ''Invalid Vdex header - skipping'')])"
    by (simp add: invalid_header)
next
  assume "utils_mapFileToRead e f = Some buf \<and> \<not> length buf < sizeof_vdexHeader + sz
        \<and> vdex_isValidVdex buf = Some True \<and> vdex_dumpHeaderInfo buf = Some ()
        \<and> selectVdexBackend (ptrs st) buf = Some (True, q, lgs)
        \<and> vdex_process e q f buf a = Some (- 1)"
  then show "\<exists>lg'. process_file e a sz st f =
           Some (add_log (st\<lparr>ptrs := q\<rparr>)
                   (lg' @ [(l_ERROR, ''Failed to process Dex files - skipping'')]))"
    using process_failed [of e f buf sz st q lgs a] by blast
next
  assume "newCrcFile a = None \<and> main_run e a sz files = Some (code, lgf)"
  then show "code = EXIT_SUCCESS"
    using main_run_loop_exit [of a e sz files code lgf] by blast
qed

text \<open>
  The exit status does not tell whether a file was valid: a run over one file with
  the version \<open>011\<close> exits with \<open>EXIT_SUCCESS\<close> although validation succeeded for no
  file.
\<close>

theorem exit_status_counterexample:
  "main_run (sample_env (Some bad_version_vdex) 1) sample_args 112 [''a.vdex'']
     = Some (EXIT_SUCCESS, [(l_WARN, ''Invalid Vdex header - skipping'')])
   \<and> \<not> file_validates (sample_env (Some bad_version_vdex) 1) 112 ''a.vdex''"
proof -
  have v: "vdex_isValidVdex bad_version_vdex = Some False"
    by (simp add: bad_version_vdex_def buf_defs vdex_isValidVdex_eq)
  have len: "length bad_version_vdex = 140"
    by (simp add: bad_version_vdex_def buf_defs)
  from v len show ?thesis
    by (simp add: main_run_def sample_args_def sample_env_def process_file_def init_state_def
        add_log_def file_validates_def sizeof_vdexHeader_def)
qed


text \<open>
  Two files that cannot be mapped, a file of 100 bytes, a file with version \<open>011\<close>,
  and a valid file whose processing returns -1.
\<close>

theorem main_loop_per_file_witness:
  "main_loop (sample_env None 1) sample_args 112 init_state [''a.vdex'', ''b.vdex'']
     = Some (add_log init_state [(l_ERROR, ''Open & map failed - skipping''),
                                 (l_ERROR, ''Open & map failed - skipping'')])
   \<and> process_file (sample_env (Some (take 100 good_vdex)) 1) sample_args 112 init_state ''a.vdex''
     = Some (add_log init_state [(l_WARN, ''Invalid input file - skipping'')])
   \<and> process_file (sample_env (Some bad_version_vdex) 1) sample_args 112 init_state ''a.vdex''
     = Some (add_log init_state [(l_WARN, ''Invalid Vdex header - skipping'')])
   \<and> process_file (sample_env (Some good_vdex) (- 1)) sample_args 112 init_state ''a.vdex''
     = Some (add_log (init_state\<lparr>ptrs := v10_ptrs\<rparr>)
               [(l_ERROR, ''Failed to process Dex files - skipping'')])
   \<and> main_run (sample_env None 1) sample_args 112 [''a.vdex'', ''b.vdex'']
     = Some (EXIT_SUCCESS, [(l_ERROR, ''Open & map failed - skipping''),
                            (l_ERROR, ''Open & map failed - skipping'')])"
proof -
  let ?st1 = "add_log init_state [(l_ERROR, ''Open & map failed - skipping'')]"
  let ?st2 = "add_log init_state [(l_ERROR, ''Open & map failed - skipping''),
                                 (l_ERROR, ''Open & map failed - skipping'')]"
  have none: "utils_mapFileToRead (sample_env None 1) g = None" for g
    by (simp add: sample_env_def)
  have some: "utils_mapFileToRead (sample_env (Some b) r) g = Some b" for b r g
    by (simp add: sample_env_def)
  have crc: "newCrcFile sample_args = None"
    by (simp add: sample_args_def)
  have lens: "length (take 100 good_vdex) < sizeof_vdexHeader + 112"
    "\<not> length bad_version_vdex < sizeof_vdexHeader + 112"
    "\<not> length good_vdex < sizeof_vdexHeader + 112"
    by (simp_all add: good_vdex_def bad_version_vdex_def buf_defs sizeof_vdexHeader_def)
  have bv: "vdex_isValidVdex bad_version_vdex = Some False"
    by (simp add: bad_version_vdex_def buf_defs vdex_isValidVdex_eq)
  have gv: "vdex_isValidVdex good_vdex = Some True"
    by (simp add: good_vdex_def buf_defs vdex_isValidVdex_eq)
  have gd: "vdex_dumpHeaderInfo good_vdex = Some ()"
    by (rule dump_good)
  have gs: "selectVdexBackend (ptrs init_state) good_vdex = Some (True, v10_ptrs, [])"
    using strtol_valid [OF gv]
    by (simp add: selectVdexBackend_eq v10_ptrs_def good_vdex_def buf_defs)
  have gp: "vdex_process (sample_env (Some good_vdex) (- 1)) v10_ptrs ''a.vdex'' good_vdex sample_args
      = Some (- 1)"
    by (simp add: vdex_process_def v10_ptrs_def sample_env_def)
  note a = main_loop_per_file [of "sample_env None 1" sample_args 112 init_state "''a.vdex''" ?st1
      "[''b.vdex'']" "[]" v10_ptrs "[]" "[''a.vdex'', ''b.vdex'']" EXIT_SUCCESS "logs ?st2"]
  note b = main_loop_per_file [of "sample_env None 1" sample_args 112 ?st1 "''b.vdex''" ?st2 "[]"
      "[]" v10_ptrs "[]" "[]" EXIT_SUCCESS "[]"]
  note c = main_loop_per_file [of "sample_env (Some (take 100 good_vdex)) 1" sample_args 112
      init_state "''a.vdex''" init_state "[]" "take 100 good_vdex" v10_ptrs "[]" "[]"
      EXIT_SUCCESS "[]"]
  note d = main_loop_per_file [of "sample_env (Some bad_version_vdex) 1" sample_args 112
      init_state "''a.vdex''" init_state "[]" bad_version_vdex v10_ptrs "[]" "[]"
      EXIT_SUCCESS "[]"]
  note e = main_loop_per_file [of "sample_env (Some good_vdex) (- 1)" sample_args 112
      init_state "''a.vdex''" init_state "[]" good_vdex v10_ptrs "[]" "[]" EXIT_SUCCESS "[]"]
  have p1: "process_file (sample_env None 1) sample_args 112 init_state ''a.vdex'' = Some ?st1"
    using a none by simp
  have p2: "process_file (sample_env None 1) sample_args 112 ?st1 ''b.vdex'' = Some ?st2"
    using b none by (simp add: add_log_def)
  have ml: "main_loop (sample_env None 1) sample_args 112 init_state [''a.vdex'', ''b.vdex'']
      = Some ?st2"
    using a b p1 p2 by simp
  have w2: "process_file (sample_env (Some (take 100 good_vdex)) 1) sample_args 112 init_state ''a.vdex''
     = Some (add_log init_state [(l_WARN, ''Invalid input file - skipping'')])"
    using c some lens(1) by simp
  have w3: "process_file (sample_env (Some bad_version_vdex) 1) sample_args 112 init_state ''a.vdex''
     = Some (add_log init_state [(l_WARN, ''Invalid Vdex header - skipping'')])"
    using d some lens(2) bv by simp
  from e some lens(3) gv gd gs gp
  have "\<exists>lg'. process_file (sample_env (Some good_vdex) (- 1)) sample_args 112 init_state ''a.vdex''
     = Some (add_log (init_state\<lparr>ptrs := v10_ptrs\<rparr>)
               (lg' @ [(l_ERROR, ''Failed to process Dex files - skipping'')]))"
    by simp
  then obtain lg' where "process_file (sample_env (Some good_vdex) (- 1)) sample_args 112 init_state ''a.vdex''
     = Some (add_log (init_state\<lparr>ptrs := v10_ptrs\<rparr>)
               (lg' @ [(l_ERROR, ''Failed to process Dex files - skipping'')]))"
    by blast
  moreover have "process_file (sample_env (Some good_vdex) (- 1)) sample_args 112 init_state ''a.vdex''
     = Some (add_log (init_state\<lparr>ptrs := v10_ptrs\<rparr>)
               [(l_ERROR, ''Failed to process Dex files - skipping'')])"
    using gv gd gs gp lens(3)
    by (simp add: process_file_def sample_env_def sample_args_def)
  ultimately have w4: "process_file (sample_env (Some good_vdex) (- 1)) sample_args 112 init_state ''a.vdex''
     = Some (add_log (init_state\<lparr>ptrs := v10_ptrs\<rparr>)
               [(l_ERROR, ''Failed to process Dex files - skipping'')])"
    by simp
  have mr: "main_run (sample_env None 1) sample_args 112 [''a.vdex'', ''b.vdex'']
     = Some (EXIT_SUCCESS, [(l_ERROR, ''Open & map failed - skipping''),
                            (l_ERROR, ''Open & map failed - skipping'')])"
    using ml crc by (simp add: main_run_def add_log_def init_state_def)
  from ml w2 w3 w4 mr show ?thesis by simp
qed

end
